theory Spec2Isabelle
  imports Complex_Main
begin

section \<open>Common data: identifiers, numbers, errors\<close>

text \<open>
  Documents refer to each other by ObjectId, a 12-byte value; an identifier is modelled as a
  natural number (below \<open>16 ^ 24\<close>). A JavaScript \<open>number\<close> that reaches a service has passed the request schema, so it is
  finite; finite numbers are modelled as rationals (comparison of doubles is exact, so the
  order is the same). A \<open>Date\<close> is its millisecond timestamp. The \<open>createdAt\<close> and
  \<open>updatedAt\<close> stamps of the documents are not modelled.
\<close>

type_synonym oid = nat
type_synonym number = rat
type_synonym date = nat

text \<open>
  \<open>CustomError (message, statusCode)\<close> is the error class of the services. A failed
  schema validation of \<open>save\<close> is a \<open>ValidationError\<close> with the messages of the failing
  paths; calling a value that is not a function is a \<open>TypeError\<close>; a value that the
  mapper cannot cast to the type of its path is a \<open>CastError\<close> (the type, the value).
\<close>

datatype js_error =
    CustomError string nat
  | ValidationError "string list"
  | TypeError string
  | CastError string string

subsection \<open>ObjectIds and their strings\<close>

text \<open>
  \<open>id.toString()\<close> is the 24-digit lower-case hexadecimal string of the ObjectId.
\<close>

definition hex_digit :: "nat \<Rightarrow> char" where
  "hex_digit d = ''0123456789abcdef'' ! (d mod 16)"

fun hex_string :: "nat \<Rightarrow> nat \<Rightarrow> string" where
  "hex_string 0 i = []"
| "hex_string (Suc n) i = hex_string n (i div 16) @ [hex_digit i]"

definition ObjectId_toString :: "oid \<Rightarrow> string" where
  "ObjectId_toString i = hex_string 24 i"

text \<open>
  Where a query takes an identifier, the mapper casts the string it is given: a string of 24
  hexadecimal digits, in either case, is the ObjectId with that value; a string that does
  not cast raises a CastError. (Older drivers also take any string of 12 characters for an
  ObjectId; no result below is about such a string.)
\<close>

definition hex_value :: "char \<Rightarrow> nat option" where
  "hex_value ch =
     map_of (zip ''0123456789abcdefABCDEF''
                 [0, 1, 2, 3, 4, 5, 6, 7, 8, 9, 10, 11, 12, 13, 14, 15, 10, 11, 12, 13, 14, 15]) ch"

fun hex_number :: "nat \<Rightarrow> string \<Rightarrow> nat option" where
  "hex_number acc [] = Some acc"
| "hex_number acc (ch # s) =
     (case hex_value ch of None \<Rightarrow> None | Some d \<Rightarrow> hex_number (16 * acc + d) s)"

definition castObjectId :: "string \<Rightarrow> oid option" where
  "castObjectId s = (if length s = 24 then hex_number 0 s else None)"

subsection \<open>Strings\<close>

text \<open>
  \<open>toLowerCase\<close> and \<open>trim\<close> as they act on strings of ASCII characters (the
  characters a stored email has, by the \<open>match\<close> pattern of the user schema): the letters
  A to Z are lower-cased, and tab, line feed, vertical tab, form feed, carriage return and
  space are trimmed at both ends. \<open>is_ascii\<close> holds of the strings they are exact for.
\<close>

definition is_ascii :: "string \<Rightarrow> bool" where
  "is_ascii s = list_all (\<lambda>c. \<not> digit7 c) s"

definition toLowerCase :: "string \<Rightarrow> string" where
  "toLowerCase s =
     map (\<lambda>c. case map_of (zip ''ABCDEFGHIJKLMNOPQRSTUVWXYZ'' ''abcdefghijklmnopqrstuvwxyz'') c of
                 None \<Rightarrow> c | Some l \<Rightarrow> l) s"

definition is_whitespace :: "char \<Rightarrow> bool" where
  "is_whitespace c = (c \<in> set [CHR '' '', CHR 0x09, CHR 0x0A, CHR 0x0B, CHR 0x0C, CHR 0x0D])"

definition trim :: "string \<Rightarrow> string" where
  "trim s = rev (dropWhile is_whitespace (rev (dropWhile is_whitespace s)))"

section \<open>Access control guard (middleware/rbac)\<close>

text \<open>
  \<open>req.user\<close> is optional and carries \<open>userId\<close>, \<open>email\<close> and \<open>role\<close>, all strings.
\<close>

record auth_user =
  userId :: string
  auth_email :: string
  auth_role :: string

record AuthRequest =
  user :: "auth_user option"

text \<open>
  The values a middleware parameter can be bound to: a missing argument is \<open>undefined\<close>,
  the response object, or the continuation \<open>next\<close>.
\<close>

datatype js_arg = Undefined | ResponseObject | NextFunction

text \<open>The call \<open>next()\<close>: only a function can be called.\<close>

definition call_next :: "js_arg \<Rightarrow> js_error + unit" where
  "call_next f =
     (case f of
        NextFunction \<Rightarrow> Inr ()
      | Undefined \<Rightarrow> Inl (TypeError ''next is not a function'')
      | ResponseObject \<Rightarrow> Inl (TypeError ''next is not a function''))"

text \<open>
  \<open>requireRoles(...roles)\<close> returns the handler
  \<open>(req: AuthRequest, res, Response, next) => { ... }\<close>, which declares four parameters:
  \<open>req\<close>, \<open>res\<close>, \<open>Response\<close> and \<open>next\<close>. \<open>Inr ()\<close> is the request passed on.
\<close>

definition requireRoles :: "string list \<Rightarrow> AuthRequest \<Rightarrow> js_arg \<Rightarrow> js_arg \<Rightarrow> js_arg \<Rightarrow> js_error + unit" where
  "requireRoles roles req res Response next =
     (case user req of
        None \<Rightarrow> Inl (CustomError ''Authentication required'' 401)
      | Some u \<Rightarrow>
          if auth_role u \<notin> set roles then Inl (CustomError ''Insufficient permissions'' 403)
          else call_next next)"

definition requireAdmin :: "AuthRequest \<Rightarrow> js_arg \<Rightarrow> js_arg \<Rightarrow> js_arg \<Rightarrow> js_error + unit" where
  "requireAdmin = requireRoles [''ADMIN'']"

definition requireTeacher :: "AuthRequest \<Rightarrow> js_arg \<Rightarrow> js_arg \<Rightarrow> js_arg \<Rightarrow> js_error + unit" where
  "requireTeacher = requireRoles [''TEACHER'', ''ADMIN'']"

definition requireStudent :: "AuthRequest \<Rightarrow> js_arg \<Rightarrow> js_arg \<Rightarrow> js_arg \<Rightarrow> js_error + unit" where
  "requireStudent = requireRoles [''STUDENT'', ''ADMIN'']"

definition requireParent :: "AuthRequest \<Rightarrow> js_arg \<Rightarrow> js_arg \<Rightarrow> js_arg \<Rightarrow> js_error + unit" where
  "requireParent = requireRoles [''PARENT'', ''ADMIN'']"

text \<open>
  A request handler is invoked with three arguments \<open>(req, res, next)\<close>, as
  \<open>authenticate\<close> in middleware/auth declares them; the fourth parameter is then
  \<open>undefined\<close>.
\<close>

definition invoke_handler :: "(AuthRequest \<Rightarrow> js_arg \<Rightarrow> js_arg \<Rightarrow> js_arg \<Rightarrow> js_error + unit) \<Rightarrow> AuthRequest \<Rightarrow> js_error + unit" where
  "invoke_handler h req = h req ResponseObject NextFunction Undefined"

text \<open>
  The router (Express) dispatches a request to a middleware function by its declared
  parameter count: a function that declares more than three parameters is an error handler
  and is skipped for a request, which goes on to the next handler; any other function is
  invoked with \<open>(req, res, next)\<close>. The handler that \<open>requireRoles\<close> returns declares
  four parameters.
\<close>

definition requireRoles_length :: nat where
  "requireRoles_length = 4"

definition handle_request ::
  "nat \<Rightarrow> (AuthRequest \<Rightarrow> js_arg \<Rightarrow> js_arg \<Rightarrow> js_arg \<Rightarrow> js_error + unit) \<Rightarrow> AuthRequest
   \<Rightarrow> js_error + unit" where
  "handle_request fn_length fn req = (if fn_length > 3 then Inr () else invoke_handler fn req)"

section \<open>The persistence layer\<close>

text \<open>
  A collection is the list of its documents. \<open>findOne\<close> returns the first document that
  matches (\<open>List.find\<close>); the single-document writes \<open>findByIdAndUpdate\<close>,
  \<open>findByIdAndDelete\<close> and the \<open>save\<close> of a loaded document touch the first match only.
\<close>

fun updateOne :: "('a \<Rightarrow> bool) \<Rightarrow> ('a \<Rightarrow> 'a) \<Rightarrow> 'a list \<Rightarrow> 'a list" where
  "updateOne p f [] = []"
| "updateOne p f (x # xs) = (if p x then f x # xs else x # updateOne p f xs)"

fun deleteOne :: "('a \<Rightarrow> bool) \<Rightarrow> 'a list \<Rightarrow> 'a list" where
  "deleteOne p [] = []"
| "deleteOne p (x # xs) = (if p x then xs else x # deleteOne p xs)"

definition deleteMany :: "('a \<Rightarrow> bool) \<Rightarrow> 'a list \<Rightarrow> 'a list" where
  "deleteMany p xs = filter (\<lambda>x. \<not> p x) xs"

subsection \<open>Users (users/user.model)\<close>

datatype Role = ADMIN | TEACHER | STUDENT | PARENT

datatype UserStatus = ACTIVE | INACTIVE | SUSPENDED

record User =
  user_id :: oid
  email :: string
  passwordHash :: string
  firstName :: string
  lastName :: string
  role :: Role
  user_status :: UserStatus
  meta_class :: "oid option"
  resetPasswordToken :: "string option"
  resetPasswordExpires :: "date option"
  lastLogin :: "date option"

text \<open>
  The keys of the update documents the services pass to \<open>User.findByIdAndUpdate\<close>. The
  value of a key may be \<open>undefined\<close> (\<open>None\<close>); \<open>Unset_meta_class\<close> is
  \<open>$unset: { 'meta.class': 1 }\<close>.
\<close>

datatype user_update_key =
    Set_passwordHash "string option"
  | Set_lastLogin "date option"
  | Set_resetPasswordToken "string option"
  | Set_resetPasswordExpires "date option"
  | Set_meta_class "oid option"
  | Unset_meta_class

text \<open>
  The object-document mapper casts an update document before it sends it: a key whose value
  is \<open>undefined\<close> is removed from the update (Mongoose, from version 6 on, always strips
  such keys; a field is cleared with \<open>$unset\<close> or with \<open>null\<close>). So such a key leaves
  the stored field as it is.
\<close>

fun apply_user_update_key :: "user_update_key \<Rightarrow> User \<Rightarrow> User" where
  "apply_user_update_key (Set_passwordHash v) u =
     (case v of None \<Rightarrow> u | Some h \<Rightarrow> u\<lparr>passwordHash := h\<rparr>)"
| "apply_user_update_key (Set_lastLogin v) u =
     (case v of None \<Rightarrow> u | Some d \<Rightarrow> u\<lparr>lastLogin := Some d\<rparr>)"
| "apply_user_update_key (Set_resetPasswordToken v) u =
     (case v of None \<Rightarrow> u | Some t \<Rightarrow> u\<lparr>resetPasswordToken := Some t\<rparr>)"
| "apply_user_update_key (Set_resetPasswordExpires v) u =
     (case v of None \<Rightarrow> u | Some d \<Rightarrow> u\<lparr>resetPasswordExpires := Some d\<rparr>)"
| "apply_user_update_key (Set_meta_class v) u =
     (case v of None \<Rightarrow> u | Some c \<Rightarrow> u\<lparr>meta_class := Some c\<rparr>)"
| "apply_user_update_key Unset_meta_class u = u\<lparr>meta_class := None\<rparr>"

definition apply_user_update :: "user_update_key list \<Rightarrow> User \<Rightarrow> User" where
  "apply_user_update upd u = fold apply_user_update_key upd u"

definition User_findById :: "User list \<Rightarrow> oid \<Rightarrow> User option" where
  "User_findById us i = find (\<lambda>u. user_id u = i) us"

definition User_findByIdAndUpdate :: "oid \<Rightarrow> user_update_key list \<Rightarrow> User list \<Rightarrow> User list" where
  "User_findByIdAndUpdate i upd us = updateOne (\<lambda>u. user_id u = i) (apply_user_update upd) us"

subsection \<open>Classes (classes/class.model)\<close>

datatype ClassStatus = CLASS_ACTIVE | CLASS_INACTIVE

record Class =
  class_id :: oid
  name :: string
  section_name :: string
  year :: number
  classTeacher :: oid
  students :: "oid list"
  subjects :: "oid list"
  capacity :: number
  class_status :: ClassStatus

definition Class_findById :: "Class list \<Rightarrow> oid \<Rightarrow> Class option" where
  "Class_findById cs i = find (\<lambda>c. class_id c = i) cs"

text \<open>
  The validators of the class schema that \<open>save\<close> runs: \<open>required\<close> and \<open>maxlength\<close> of
  \<open>name\<close> and \<open>section\<close>, \<open>min\<close> and \<open>max\<close> of \<open>year\<close> and \<open>capacity\<close>. The result is the
  list of the messages of the failing paths. (The \<open>trim\<close> setter is not modelled: strings
  are taken as trimmed.)
\<close>

definition Class_validate :: "Class \<Rightarrow> string list" where
  "Class_validate c =
     (if name c = [] then [''Class name is required'']
      else if length (name c) > 50 then [''Class name cannot exceed 50 characters''] else [])
     @ (if section_name c = [] then [''Section is required'']
      else if length (section_name c) > 10 then [''Section cannot exceed 10 characters''] else [])
     @ (if year c < 2020 then [''Year must be 2020 or later'']
      else if year c > 2030 then [''Year must be 2030 or earlier''] else [])
     @ (if capacity c < 1 then [''Capacity must be at least 1'']
      else if capacity c > 100 then [''Capacity cannot exceed 100''] else [])"

text \<open>
  \<open>save\<close> of a new document validates and inserts it; \<open>save\<close> of a loaded document
  validates and replaces the stored document with the same id.
\<close>

definition Class_save_new :: "Class \<Rightarrow> Class list \<Rightarrow> js_error + Class list" where
  "Class_save_new c cs =
     (case Class_validate c of
        [] \<Rightarrow> Inr (cs @ [c])
      | m # ms \<Rightarrow> Inl (ValidationError (m # ms)))"

definition Class_save :: "Class \<Rightarrow> Class list \<Rightarrow> js_error + Class list" where
  "Class_save c cs =
     (case Class_validate c of
        [] \<Rightarrow> Inr (updateOne (\<lambda>d. class_id d = class_id c) (\<lambda>d. c) cs)
      | m # ms \<Rightarrow> Inl (ValidationError (m # ms)))"

subsection \<open>Exams and grades (exams/exam.model, exams/grade.model)\<close>

record Exam =
  exam_id :: oid
  exam_name :: string
  exam_class :: oid
  exam_subject :: oid
  maxMarks :: number
  exam_createdBy :: oid

text \<open>
  A grade document. \<open>grade\<close> is the letter; \<open>None\<close> is a field that has not been set
  (\<open>undefined\<close>).
\<close>

record Grade =
  grade_id :: oid
  grade_exam :: oid
  grade_student :: oid
  marks :: number
  grade :: "string option"
  remarks :: "string option"
  gradedBy :: oid

definition Exam_findById :: "Exam list \<Rightarrow> oid \<Rightarrow> Exam option" where
  "Exam_findById es i = find (\<lambda>e. exam_id e = i) es"

definition Grade_findById :: "Grade list \<Rightarrow> oid \<Rightarrow> Grade option" where
  "Grade_findById gs i = find (\<lambda>g. grade_id g = i) gs"

subsection \<open>Announcements (announcements/announcement.model)\<close>

datatype Audience = AUDIENCE_ALL | AUDIENCE_CLASS | AUDIENCE_ROLE | AUDIENCE_USER

datatype AnnouncementStatus = DRAFT | PUBLISHED | ARCHIVED

record Announcement =
  announcement_id :: oid
  title :: string
  body :: string
  audience :: Audience
  targets :: "oid list"
  targetModel :: "string option"
  createdBy :: oid
  announcement_status :: AnnouncementStatus
  publishedAt :: "date option"
  expiresAt :: "date option"

definition Announcement_findById :: "Announcement list \<Rightarrow> oid \<Rightarrow> Announcement option" where
  "Announcement_findById as i = find (\<lambda>a. announcement_id a = i) as"

subsection \<open>The database\<close>

record db =
  users :: "User list"
  classes :: "Class list"
  exams :: "Exam list"
  grades :: "Grade list"
  announcements :: "Announcement list"

section \<open>User and auth services (users/user.service, auth/auth.service)\<close>

text \<open>
  \<open>getUserByEmail\<close> is \<open>User.findOne({ email })\<close>. The mapper casts the value of a
  query through the setters of the path, and \<open>email\<close> is declared with \<open>lowercase\<close> and
  \<open>trim\<close>: the stored emails are compared with the trimmed, lower-cased query.
\<close>

definition getUserByEmail :: "string \<Rightarrow> db \<Rightarrow> User option" where
  "getUserByEmail e st = find (\<lambda>u. email u = toLowerCase (trim e)) (users st)"

text \<open>
  \<open>hashPassword\<close> and \<open>comparePassword\<close> (utils/password) and \<open>generateTokenPair\<close>
  (utils/jwt) are parameters of the services that use them; \<open>now\<close> is \<open>new Date()\<close>.
  A service that writes returns its outcome together with the database it leaves: the thrown
  error (\<open>Inl\<close>) or the returned value (\<open>Inr\<close>), and the database after the writes done
  up to that point.
\<close>

definition updateUserPassword :: "(string \<Rightarrow> string) \<Rightarrow> oid \<Rightarrow> string \<Rightarrow> db \<Rightarrow> db" where
  "updateUserPassword hashPassword i newPassword st =
     st\<lparr>users := User_findByIdAndUpdate i [Set_passwordHash (Some (hashPassword newPassword))] (users st)\<rparr>"

definition updateLastLogin :: "date \<Rightarrow> oid \<Rightarrow> db \<Rightarrow> db" where
  "updateLastLogin now i st =
     st\<lparr>users := User_findByIdAndUpdate i [Set_lastLogin (Some now)] (users st)\<rparr>"

record TokenPayload =
  payload_userId :: oid
  payload_email :: string
  payload_role :: Role

record TokenPair =
  accessToken :: string
  refreshToken :: string

definition login ::
  "(string \<Rightarrow> string \<Rightarrow> bool) \<Rightarrow> (TokenPayload \<Rightarrow> TokenPair) \<Rightarrow> date \<Rightarrow>
   string \<Rightarrow> string \<Rightarrow> db \<Rightarrow> (js_error + (User \<times> TokenPair)) \<times> db" where
  "login comparePassword generateTokenPair now e password st =
     (case getUserByEmail e st of
        None \<Rightarrow> (Inl (CustomError ''Invalid email or password'' 401), st)
      | Some u \<Rightarrow>
          if user_status u \<noteq> ACTIVE then (Inl (CustomError ''Account is not active'' 401), st)
          else if \<not> comparePassword password (passwordHash u)
          then (Inl (CustomError ''Invalid email or password'' 401), st)
          else
            let tokens = generateTokenPair
                  \<lparr>payload_userId = user_id u, payload_email = email u, payload_role = role u\<rparr>
            in (Inr (u, tokens), updateLastLogin now (user_id u) st))"

text \<open>
  \<open>resetPassword\<close>: the user is the first one with \<open>resetPasswordToken\<close> equal to the
  token and \<open>resetPasswordExpires\<close> \<open>$gt\<close> now. Then two writes: the new hash, and an
  update whose two keys both have the value \<open>undefined\<close>.
\<close>

definition reset_token_matches :: "string \<Rightarrow> date \<Rightarrow> User \<Rightarrow> bool" where
  "reset_token_matches token now u =
     (resetPasswordToken u = Some token
      \<and> (case resetPasswordExpires u of None \<Rightarrow> False | Some d \<Rightarrow> d > now))"

definition resetPassword :: "(string \<Rightarrow> string) \<Rightarrow> date \<Rightarrow> string \<Rightarrow> string \<Rightarrow> db \<Rightarrow> (js_error + unit) \<times> db" where
  "resetPassword hashPassword now token newPassword st =
     (case find (reset_token_matches token now) (users st) of
        None \<Rightarrow> (Inl (CustomError ''Invalid or expired reset token'' 400), st)
      | Some u \<Rightarrow>
          let st1 = updateUserPassword hashPassword (user_id u) newPassword st
          in (Inr (), st1\<lparr>users := User_findByIdAndUpdate (user_id u)
                   [Set_resetPasswordToken None, Set_resetPasswordExpires None] (users st1)\<rparr>))"

section \<open>Class service (classes/class.service)\<close>

text \<open>
  \<open>getClassById\<close> loads the class again (the population of the references for the
  response is not modelled).
\<close>

definition getClassById :: "oid \<Rightarrow> db \<Rightarrow> js_error + Class" where
  "getClassById i st =
     (case Class_findById (classes st) i of
        None \<Rightarrow> Inl (CustomError ''Class not found'' 404)
      | Some c \<Rightarrow> Inr c)"

text \<open>
  \<open>createClass\<close>; \<open>newId\<close> is the identifier the new document gets. \<open>capacity || 30\<close>
  takes 30 for a missing capacity and for 0.
\<close>

definition createClass ::
  "oid \<Rightarrow> string \<Rightarrow> string \<Rightarrow> number \<Rightarrow> oid \<Rightarrow> number option \<Rightarrow> ClassStatus option \<Rightarrow> db
   \<Rightarrow> (js_error + Class) \<times> db" where
  "createClass newId nm sec yr teacherId cap stat st =
     (case find (\<lambda>c. name c = nm \<and> section_name c = sec \<and> year c = yr) (classes st) of
        Some existingClass \<Rightarrow>
          (Inl (CustomError ''Class with this name, section, and year already exists'' 400), st)
      | None \<Rightarrow>
         (case User_findById (users st) teacherId of
            None \<Rightarrow> (Inl (CustomError ''Class teacher not found'' 404), st)
          | Some teacher \<Rightarrow>
              if role teacher \<noteq> TEACHER
              then (Inl (CustomError ''Class teacher must have TEACHER role'' 400), st)
              else
                let newClass =
                  \<lparr>class_id = newId, name = nm, section_name = sec, year = yr,
                   classTeacher = teacherId, students = [], subjects = [],
                   capacity = (case cap of None \<Rightarrow> 30 | Some c \<Rightarrow> if c = 0 then 30 else c),
                   class_status = (case stat of None \<Rightarrow> CLASS_ACTIVE | Some s \<Rightarrow> s)\<rparr>
                in (case Class_save_new newClass (classes st) of
                      Inl e \<Rightarrow> (Inl e, st)
                    | Inr cs \<Rightarrow> (Inr newClass, st\<lparr>classes := cs\<rparr>))))"

text \<open>
  The body of \<open>PATCH /classes/:id\<close> after the request schema: every key is optional.
\<close>

record ClassUpdate =
  upd_name :: "string option"
  upd_section :: "string option"
  upd_year :: "number option"
  upd_classTeacher :: "oid option"
  upd_capacity :: "number option"
  upd_status :: "ClassStatus option"

text \<open>\<open>Object.assign(classData, updateData)\<close>: every key that is present is assigned.\<close>

definition assign_ClassUpdate :: "Class \<Rightarrow> ClassUpdate \<Rightarrow> Class" where
  "assign_ClassUpdate c u =
     c\<lparr>name := (case upd_name u of None \<Rightarrow> name c | Some v \<Rightarrow> v),
       section_name := (case upd_section u of None \<Rightarrow> section_name c | Some v \<Rightarrow> v),
       year := (case upd_year u of None \<Rightarrow> year c | Some v \<Rightarrow> v),
       classTeacher := (case upd_classTeacher u of None \<Rightarrow> classTeacher c | Some v \<Rightarrow> v),
       capacity := (case upd_capacity u of None \<Rightarrow> capacity c | Some v \<Rightarrow> v),
       class_status := (case upd_status u of None \<Rightarrow> class_status c | Some v \<Rightarrow> v)\<rparr>"

text \<open>
  The first check of \<open>updateClass\<close> runs when \<open>name\<close>, \<open>section\<close> and \<open>year\<close> are all
  truthy: present, and not the empty string or 0.
\<close>

definition duplicate_after_update :: "oid \<Rightarrow> ClassUpdate \<Rightarrow> Class list \<Rightarrow> bool" where
  "duplicate_after_update i u cs =
     (case (upd_name u, upd_section u, upd_year u) of
        (Some nm, Some sec, Some yr) \<Rightarrow>
          nm \<noteq> [] \<and> sec \<noteq> [] \<and> yr \<noteq> 0
          \<and> find (\<lambda>c. name c = nm \<and> section_name c = sec \<and> year c = yr \<and> class_id c \<noteq> i) cs \<noteq> None
      | _ \<Rightarrow> False)"

definition updateClass :: "oid \<Rightarrow> ClassUpdate \<Rightarrow> db \<Rightarrow> (js_error + Class) \<times> db" where
  "updateClass i updateData st =
     (case Class_findById (classes st) i of
        None \<Rightarrow> (Inl (CustomError ''Class not found'' 404), st)
      | Some classData \<Rightarrow>
          if duplicate_after_update i updateData (classes st)
          then (Inl (CustomError ''Class with this name, section, and year already exists'' 400), st)
          else
           (case (case upd_classTeacher updateData of
                    None \<Rightarrow> None
                  | Some t \<Rightarrow>
                     (case User_findById (users st) t of
                        None \<Rightarrow> Some (CustomError ''Class teacher not found'' 404)
                      | Some teacher \<Rightarrow>
                          if role teacher \<noteq> TEACHER
                          then Some (CustomError ''Class teacher must have TEACHER role'' 400)
                          else None)) of
              Some e \<Rightarrow> (Inl e, st)
            | None \<Rightarrow>
                let classData' = assign_ClassUpdate classData updateData
                in (case Class_save classData' (classes st) of
                      Inl e \<Rightarrow> (Inl e, st)
                    | Inr cs \<Rightarrow> (Inr classData', st\<lparr>classes := cs\<rparr>))))"

text \<open>
  \<open>addStudentToClass(classId, studentId)\<close>. The two identifiers are taken as ObjectIds,
  each given by its canonical string (the \<open>toString\<close> of the ObjectId): the class and the
  user are looked up by them, and \<open>includes\<close> is membership in the member list.
\<close>

definition addStudentToClass :: "oid \<Rightarrow> oid \<Rightarrow> db \<Rightarrow> (js_error + Class) \<times> db" where
  "addStudentToClass classId studentId st =
     (case Class_findById (classes st) classId of
        None \<Rightarrow> (Inl (CustomError ''Class not found'' 404), st)
      | Some classData \<Rightarrow>
         (case User_findById (users st) studentId of
            None \<Rightarrow> (Inl (CustomError ''Student not found'' 404), st)
          | Some student \<Rightarrow>
              if role student \<noteq> STUDENT then (Inl (CustomError ''User must have STUDENT role'' 400), st)
              else if studentId \<in> set (students classData)
              then (Inl (CustomError ''Student is already enrolled in this class'' 400), st)
              else if of_nat (length (students classData)) \<ge> capacity classData
              then (Inl (CustomError ''Class is at maximum capacity'' 400), st)
              else
               (case Class_save (classData\<lparr>students := students classData @ [studentId]\<rparr>) (classes st) of
                  Inl e \<Rightarrow> (Inl e, st)
                | Inr cs \<Rightarrow>
                    let st' = st\<lparr>classes := cs,
                                users := User_findByIdAndUpdate studentId [Set_meta_class (Some classId)] (users st)\<rparr>
                    in (getClassById classId st', st'))))"

text \<open>
  \<open>removeStudentFromClass(classId, studentId)\<close>. \<open>studentId\<close> is the string of the route
  (the request schema takes any string that is not empty). The filter compares the string of
  every member with it, \<open>id.toString() !== studentId\<close>; the class is saved; then
  \<open>User.findByIdAndUpdate(studentId, ...)\<close> casts the string, and throws a CastError when
  it does not cast. \<open>classId\<close> is the ObjectId the class is looked up with.
\<close>

definition removeStudentFromClass :: "oid \<Rightarrow> string \<Rightarrow> db \<Rightarrow> (js_error + Class) \<times> db" where
  "removeStudentFromClass classId studentId st =
     (case Class_findById (classes st) classId of
        None \<Rightarrow> (Inl (CustomError ''Class not found'' 404), st)
      | Some classData \<Rightarrow>
         (case Class_save
                 (classData\<lparr>students :=
                    filter (\<lambda>i. ObjectId_toString i \<noteq> studentId) (students classData)\<rparr>)
                 (classes st) of
            Inl e \<Rightarrow> (Inl e, st)
          | Inr cs \<Rightarrow>
             (case castObjectId studentId of
                None \<Rightarrow> (Inl (CastError ''ObjectId'' studentId), st\<lparr>classes := cs\<rparr>)
              | Some sid \<Rightarrow>
                  let st' = st\<lparr>classes := cs,
                              users := User_findByIdAndUpdate sid [Unset_meta_class] (users st)\<rparr>
                  in (getClassById classId st', st'))))"

text \<open>The class invariant of the data model: the student list is no longer than the capacity.\<close>

definition within_capacity :: "Class \<Rightarrow> bool" where
  "within_capacity c = (of_nat (length (students c)) \<le> capacity c)"

section \<open>Exams service (exams/exams.service) and the grade hook (exams/grade.model)\<close>

text \<open>
  The value of a JavaScript arithmetic expression: \<open>NaN\<close>, an infinity, or a finite
  number. An operand that is \<open>undefined\<close> (\<open>None\<close>) converts to \<open>NaN\<close>. A comparison
  with \<open>NaN\<close> is false. (Rounding of doubles is not modelled.)
\<close>

datatype js_number = NaN | PlusInfinity | MinusInfinity | Finite number

fun js_divide :: "number \<Rightarrow> number option \<Rightarrow> js_number" where
  "js_divide a None = NaN"
| "js_divide a (Some b) =
     (if b = 0 then (if a = 0 then NaN else if a > 0 then PlusInfinity else MinusInfinity)
      else Finite (a / b))"

fun js_times100 :: "js_number \<Rightarrow> js_number" where
  "js_times100 (Finite x) = Finite (x * 100)"
| "js_times100 v = v"

fun js_ge :: "js_number \<Rightarrow> number \<Rightarrow> bool" where
  "js_ge NaN y = False"
| "js_ge PlusInfinity y = True"
| "js_ge MinusInfinity y = False"
| "js_ge (Finite x) y = (x \<ge> y)"

text \<open>The chain of breakpoints of the hook.\<close>

definition letter_of_percentage :: "js_number \<Rightarrow> string" where
  "letter_of_percentage percentage =
     (if js_ge percentage 90 then ''A+''
      else if js_ge percentage 85 then ''A''
      else if js_ge percentage 80 then ''A-''
      else if js_ge percentage 75 then ''B+''
      else if js_ge percentage 70 then ''B''
      else if js_ge percentage 65 then ''B-''
      else if js_ge percentage 60 then ''C+''
      else if js_ge percentage 55 then ''C''
      else if js_ge percentage 50 then ''C-''
      else if js_ge percentage 45 then ''D''
      else ''F'')"

text \<open>
  The hook looks the exam up with \<open>this.constructor.findById(this.exam)\<close>. The constructor
  of a grade document is the \<open>Grade\<close> model, so the search runs over the grades, with the
  exam's identifier. A grade document has no path \<open>maxMarks\<close>: reading it gives
  \<open>undefined\<close>.
\<close>

definition Grade_read_maxMarks :: "Grade \<Rightarrow> number option" where
  "Grade_read_maxMarks doc = None"

definition Grade_preSave :: "Grade list \<Rightarrow> bool \<Rightarrow> Grade \<Rightarrow> Grade" where
  "Grade_preSave gs marksModified g =
     (if marksModified then
        (case Grade_findById gs (grade_exam g) of
           None \<Rightarrow> g
         | Some exam \<Rightarrow>
             let percentage = js_times100 (js_divide (marks g) (Grade_read_maxMarks exam))
             in g\<lparr>grade := Some (letter_of_percentage percentage)\<rparr>)
      else g)"

text \<open>
  The validators of the grade schema: \<open>marks\<close> has \<open>min 0\<close>, \<open>grade\<close> is \<open>required\<close>
  with \<open>maxlength 2\<close>, \<open>remarks\<close> has \<open>maxlength 200\<close>.
\<close>

definition Grade_validate :: "Grade \<Rightarrow> string list" where
  "Grade_validate g =
     (if marks g < 0 then [''Marks cannot be negative''] else [])
     @ (case grade g of
          None \<Rightarrow> [''Grade is required'']
        | Some l \<Rightarrow> if l = [] then [''Grade is required'']
                    else if length l > 2 then [''Grade cannot exceed 2 characters''] else [])
     @ (case remarks g of
          None \<Rightarrow> []
        | Some r \<Rightarrow> if length r > 200 then [''Remarks cannot exceed 200 characters''] else [])"

text \<open>
  \<open>save\<close> of a new grade. Validation is the first \<open>pre('save')\<close> hook of every schema,
  so it runs before the hook of the schema; on a new document every path that was set counts
  as modified.
\<close>

definition Grade_save_new :: "Grade \<Rightarrow> Grade list \<Rightarrow> js_error + (Grade \<times> Grade list)" where
  "Grade_save_new g gs =
     (case Grade_validate g of
        [] \<Rightarrow> (let g' = Grade_preSave gs True g in Inr (g', gs @ [g']))
      | m # ms \<Rightarrow> Inl (ValidationError (m # ms)))"

definition createGrade ::
  "oid \<Rightarrow> oid \<Rightarrow> oid \<Rightarrow> number \<Rightarrow> string option \<Rightarrow> oid \<Rightarrow> db \<Rightarrow> (js_error + Grade) \<times> db" where
  "createGrade newId exam student mks rmks gradedById st =
     (case find (\<lambda>g. grade_exam g = exam \<and> grade_student g = student) (grades st) of
        Some existingGrade \<Rightarrow>
          (Inl (CustomError ''Grade already exists for this student in this exam'' 400), st)
      | None \<Rightarrow>
         (case Exam_findById (exams st) exam of
            None \<Rightarrow> (Inl (CustomError ''Exam not found'' 404), st)
          | Some examData \<Rightarrow>
             (case User_findById (users st) student of
                None \<Rightarrow> (Inl (CustomError ''Student not found'' 404), st)
              | Some studentData \<Rightarrow>
                  if role studentData \<noteq> STUDENT
                  then (Inl (CustomError ''User must have STUDENT role'' 400), st)
                  else if mks > maxMarks examData
                  then (Inl (CustomError ''Marks cannot exceed maximum marks for this exam'' 400), st)
                  else
                   (case User_findById (users st) gradedById of
                      None \<Rightarrow> (Inl (CustomError ''User not found'' 404), st)
                    | Some gradedByUser \<Rightarrow>
                       (case Grade_save_new
                               \<lparr>grade_id = newId, grade_exam = exam, grade_student = student,
                                marks = mks, grade = None, remarks = rmks, gradedBy = gradedById\<rparr>
                               (grades st) of
                          Inl e \<Rightarrow> (Inl e, st)
                        | Inr (g, gs) \<Rightarrow> (Inr g, st\<lparr>grades := gs\<rparr>))))))"

definition deleteExam :: "oid \<Rightarrow> db \<Rightarrow> (js_error + unit) \<times> db" where
  "deleteExam i st =
     (case Exam_findById (exams st) i of
        None \<Rightarrow> (Inl (CustomError ''Exam not found'' 404), st)
      | Some exam \<Rightarrow>
          (Inr (), st\<lparr>grades := deleteMany (\<lambda>g. grade_exam g = i) (grades st),
                 exams := deleteOne (\<lambda>e. exam_id e = i) (exams st)\<rparr>))"

section \<open>Announcement service (announcements/announcement.service)\<close>

text \<open>
  The hook of the announcement schema: \<open>publishedAt\<close> is set when the status was modified,
  is \<open>PUBLISHED\<close>, and no \<open>publishedAt\<close> is there yet.
\<close>

definition Announcement_preSave :: "bool \<Rightarrow> date \<Rightarrow> Announcement \<Rightarrow> Announcement" where
  "Announcement_preSave statusModified now a =
     (if statusModified \<and> announcement_status a = PUBLISHED \<and> publishedAt a = None
      then a\<lparr>publishedAt := Some now\<rparr> else a)"

definition Announcement_validate :: "Announcement \<Rightarrow> string list" where
  "Announcement_validate a =
     (if title a = [] then [''Title is required'']
      else if length (title a) > 200 then [''Title cannot exceed 200 characters''] else [])
     @ (if body a = [] then [''Body is required'']
      else if length (body a) > 2000 then [''Body cannot exceed 2000 characters''] else [])
     @ (if audience a \<noteq> AUDIENCE_ALL \<and> targetModel a = None then [''Path `targetModel` is required.'']
        else [])"

definition Announcement_save ::
  "bool \<Rightarrow> date \<Rightarrow> Announcement \<Rightarrow> Announcement list \<Rightarrow> js_error + (Announcement \<times> Announcement list)" where
  "Announcement_save statusModified now a as =
     (case Announcement_validate a of
        [] \<Rightarrow>
          (let a' = Announcement_preSave statusModified now a
           in Inr (a', updateOne (\<lambda>d. announcement_id d = announcement_id a) (\<lambda>d. a') as))
      | m # ms \<Rightarrow> Inl (ValidationError (m # ms)))"

text \<open>
  \<open>publishAnnouncement(id, userRole, userId)\<close>; the role and the user id come from
  \<open>req.user\<close> and may be missing. Assigning \<open>status\<close> marks it modified when the value
  changes.
\<close>

definition publishAnnouncement ::
  "date \<Rightarrow> oid \<Rightarrow> string option \<Rightarrow> oid option \<Rightarrow> db \<Rightarrow> (js_error + Announcement) \<times> db" where
  "publishAnnouncement now i userRole uid st =
     (case Announcement_findById (announcements st) i of
        None \<Rightarrow> (Inl (CustomError ''Announcement not found'' 404), st)
      | Some announcement \<Rightarrow>
          if userRole \<noteq> Some ''ADMIN'' \<and> Some (createdBy announcement) \<noteq> uid
          then (Inl (CustomError ''You can only publish your own announcements'' 403), st)
          else
           (case Announcement_save (announcement_status announcement \<noteq> PUBLISHED) now
                   (announcement\<lparr>announcement_status := PUBLISHED, publishedAt := Some now\<rparr>)
                   (announcements st) of
              Inl e \<Rightarrow> (Inl e, st)
            | Inr (a, as) \<Rightarrow> (Inr a, st\<lparr>announcements := as\<rparr>)))"

section \<open>Scenarios and example states\<close>

text \<open>
  Consecutive \<open>addStudentToClass\<close> requests for one class, stopping at the first one that
  fails; and the states of a database that the service writes keep: every stored class
  passes the validators of its schema.
\<close>

fun addStudentsToClass :: "oid \<Rightarrow> oid list \<Rightarrow> db \<Rightarrow> (js_error + unit) \<times> db" where
  "addStudentsToClass classId [] st = (Inr (), st)"
| "addStudentsToClass classId (s # ss) st =
     (case addStudentToClass classId s st of
        (Inl e, st') \<Rightarrow> (Inl e, st')
      | (Inr c, st') \<Rightarrow> addStudentsToClass classId ss st')"

definition is_student :: "db \<Rightarrow> oid \<Rightarrow> bool" where
  "is_student st i =
     (case User_findById (users st) i of None \<Rightarrow> False | Some s \<Rightarrow> role s = STUDENT)"

definition classes_valid :: "db \<Rightarrow> bool" where
  "classes_valid st = list_all (\<lambda>c. Class_validate c = []) (classes st)"

text \<open>Example documents and databases for the concrete results below.\<close>

definition mkUser :: "oid \<Rightarrow> string \<Rightarrow> string \<Rightarrow> Role \<Rightarrow> UserStatus \<Rightarrow> User" where
  "mkUser i e h r s =
     \<lparr>user_id = i, email = e, passwordHash = h, firstName = ''First'', lastName = ''Last'',
      role = r, user_status = s, meta_class = None, resetPasswordToken = None,
      resetPasswordExpires = None, lastLogin = None\<rparr>"

definition midterm :: Exam where
  "midterm = \<lparr>exam_id = 10, exam_name = ''Midterm'', exam_class = 20, exam_subject = 30,
              maxMarks = 100, exam_createdBy = 2\<rparr>"

definition final_exam :: Exam where
  "final_exam = \<lparr>exam_id = 11, exam_name = ''Final'', exam_class = 20, exam_subject = 30,
                 maxMarks = 50, exam_createdBy = 2\<rparr>"

definition class_7A :: Class where
  "class_7A = \<lparr>class_id = 20, name = ''Grade 7'', section_name = ''A'', year = 2024,
               classTeacher = 2, students = [1, 4], subjects = [], capacity = 2,
               class_status = CLASS_ACTIVE\<rparr>"

definition class_7B :: Class where
  "class_7B = \<lparr>class_id = 21, name = ''Grade 7'', section_name = ''B'', year = 2024,
               classTeacher = 2, students = [], subjects = [], capacity = 2,
               class_status = CLASS_ACTIVE\<rparr>"

definition school_db :: db where
  "school_db =
     \<lparr>users = [mkUser 1 ''ann@school.test'' ''hash:secret1'' STUDENT ACTIVE,
               mkUser 2 ''tom@school.test'' ''hash:secret2'' TEACHER ACTIVE,
               mkUser 3 ''bob@school.test'' ''hash:secret3'' STUDENT INACTIVE,
               mkUser 4 ''eve@school.test'' ''hash:secret4'' STUDENT ACTIVE,
               mkUser 5 ''sam@school.test'' ''hash:secret5'' STUDENT ACTIVE],
      classes = [class_7A, class_7B],
      exams = [midterm, final_exam],
      grades = [],
      announcements = []\<rparr>"

definition mkGrade :: "oid \<Rightarrow> oid \<Rightarrow> oid \<Rightarrow> number \<Rightarrow> string \<Rightarrow> Grade" where
  "mkGrade i e s m l =
     \<lparr>grade_id = i, grade_exam = e, grade_student = s, marks = m, grade = Some l,
      remarks = None, gradedBy = 2\<rparr>"

definition graded_db :: db where
  "graded_db =
     school_db\<lparr>grades := [mkGrade 50 10 1 80 ''A-'', mkGrade 51 11 1 40 ''A-'',
                          mkGrade 52 10 4 70 ''B'']\<rparr>"

text \<open>
  \<open>school_db\<close> after \<open>deleteUser\<close> of the student 4, which removes the user and leaves
  the member list of the class 20 as it is.
\<close>

definition orphan_db :: db where
  "orphan_db = school_db\<lparr>users := deleteOne (\<lambda>u. user_id u = 4) (users school_db)\<rparr>"

definition reset_db :: db where
  "reset_db =
     \<lparr>users = [(mkUser 1 ''ann@school.test'' ''hash:secret1'' STUDENT ACTIVE)
                 \<lparr>resetPasswordToken := Some ''tok'', resetPasswordExpires := Some 1000\<rparr>],
      classes = [], exams = [], grades = [], announcements = []\<rparr>"

definition sports_day :: Announcement where
  "sports_day =
     \<lparr>announcement_id = 40, title = ''Sports day'', body = ''Friday at nine'',
      audience = AUDIENCE_ALL, targets = [], targetModel = None, createdBy = 2,
      announcement_status = PUBLISHED, publishedAt = Some 100, expiresAt = None\<rparr>"

definition news_db :: db where
  "news_db = \<lparr>users = [], classes = [], exams = [], grades = [],
              announcements = [sports_day]\<rparr>"

text \<open>Stand-ins for the password and token utilities in the concrete results.\<close>

definition sample_hash :: "string \<Rightarrow> string" where
  "sample_hash p = ''hash:'' @ p"

definition sample_compare :: "string \<Rightarrow> string \<Rightarrow> bool" where
  "sample_compare p h = (h = sample_hash p)"

definition sample_tokens :: "TokenPayload \<Rightarrow> TokenPair" where
  "sample_tokens p = \<lparr>accessToken = ''access:'' @ payload_email p,
                       refreshToken = ''refresh:'' @ payload_email p\<rparr>"

section \<open>Results: collections\<close>

lemmas example_defs = school_db_def graded_db_def orphan_db_def reset_db_def news_db_def
  mkUser_def mkGrade_def
  midterm_def final_exam_def class_7A_def class_7B_def sports_day_def
  sample_hash_def sample_compare_def sample_tokens_def

lemmas lookup_defs = Exam_findById_def User_findById_def Grade_findById_def Class_findById_def
  Announcement_findById_def

lemmas email_defs = getUserByEmail_def toLowerCase_def trim_def is_whitespace_def

lemma find_updateOne_same:
  "find p xs = Some x \<Longrightarrow> p y \<Longrightarrow> find p (updateOne p (\<lambda>d. y) xs) = Some y"
  by (induction xs) (auto split: if_splits)

lemma updateOne_found_itself:
  "find p xs = Some x \<Longrightarrow> updateOne p (\<lambda>d. x) xs = xs"
  by (induction xs) (auto split: if_splits)

lemma updateOne_const_twice:
  "p y \<Longrightarrow> updateOne p (\<lambda>d. y) (updateOne p (\<lambda>d. y) xs) = updateOne p (\<lambda>d. y) xs"
  by (induction xs) auto

lemma updateOne_idem:
  "(\<And>x. p x \<Longrightarrow> p (f x)) \<Longrightarrow> (\<And>x. f (f x) = f x) \<Longrightarrow>
   updateOne p f (updateOne p f xs) = updateOne p f xs"
  by (induction xs) auto

lemma find_key_updateOne:
  "(\<And>x. key (f x) = key x) \<Longrightarrow>
   find (\<lambda>x. key x = j) (updateOne (\<lambda>x. key x = i) f xs)
     = (if i = j then map_option f (find (\<lambda>x. key x = j) xs) else find (\<lambda>x. key x = j) xs)"
  by (induction xs) auto

lemma find_Some_key: "find (\<lambda>x. key x = i) xs = Some x \<Longrightarrow> key x = i"
  by (auto simp: find_Some_iff)

lemma filter_other_keys:
  "i \<notin> key ` set xs \<Longrightarrow> filter (\<lambda>x. key x \<noteq> i) xs = xs"
  by (induction xs) auto

lemma deleteOne_distinct_filter:
  "distinct (map key xs) \<Longrightarrow> deleteOne (\<lambda>x. key x = i) xs = filter (\<lambda>x. key x \<noteq> i) xs"
  by (induction xs) (auto simp: filter_other_keys)

lemma list_all_updateOne: "list_all P xs \<Longrightarrow> P y \<Longrightarrow> list_all P (updateOne p (\<lambda>d. y) xs)"
  by (induction xs) auto

lemma apply_user_update_key_id [simp]: "user_id (apply_user_update_key k u) = user_id u"
  by (cases k) (auto split: option.splits)

lemma apply_user_update_key_role [simp]: "role (apply_user_update_key k u) = role u"
  by (cases k) (auto split: option.splits)

lemma apply_user_update_user_id [simp]: "user_id (apply_user_update upd u) = user_id u"
  unfolding apply_user_update_def by (induction upd arbitrary: u) auto

lemma apply_user_update_keeps_role [simp]: "role (apply_user_update upd u) = role u"
  unfolding apply_user_update_def by (induction upd arbitrary: u) auto

lemma User_findById_after_update:
  "User_findById (User_findByIdAndUpdate i upd us) j
     = (if i = j then map_option (apply_user_update upd) (User_findById us j) else User_findById us j)"
  unfolding User_findById_def User_findByIdAndUpdate_def
  by (rule find_key_updateOne) simp

lemma Class_validate_students [simp]:
  "Class_validate (c\<lparr>students := ss\<rparr>) = Class_validate c"
  by (simp add: Class_validate_def)

lemma Class_findById_id: "Class_findById cs i = Some c \<Longrightarrow> class_id c = i"
  unfolding Class_findById_def by (rule find_Some_key)

lemma Class_save_valid:
  "Class_validate c = [] \<Longrightarrow>
   Class_save c cs = Inr (updateOne (\<lambda>d. class_id d = class_id c) (\<lambda>d. c) cs)"
  by (simp add: Class_save_def)

lemma Class_findById_after_save:
  "Class_findById cs i = Some c \<Longrightarrow> class_id c' = i \<Longrightarrow>
   Class_findById (updateOne (\<lambda>d. class_id d = i) (\<lambda>d. c') cs) i = Some c'"
  unfolding Class_findById_def by (rule find_updateOne_same) simp_all

text \<open>Strings of ObjectIds, evaluated.\<close>

lemma ObjectId_toString_examples:
  "ObjectId_toString 1 = ''000000000000000000000001''"
  "ObjectId_toString (Suc 0) = ''000000000000000000000001''"
  "ObjectId_toString 4 = ''000000000000000000000004''"
  "ObjectId_toString 10 = ''00000000000000000000000a''"
  by code_simp+

lemma castObjectId_examples:
  "castObjectId ''000000000000000000000001'' = Some 1"
  "castObjectId ''000000000000000000000009'' = Some 9"
  "castObjectId ''00000000000000000000000A'' = Some 10"
  "castObjectId ''abc'' = None"
  by code_simp+

section \<open>Results: stored classes stay valid\<close>

text \<open>
  Every write of a class goes through \<open>save\<close>, which validates the document it writes, so
  the class operations keep every stored class valid; a class found in such a database
  passes the validators.
\<close>

lemma Class_save_keeps_valid:
  "list_all (\<lambda>c. Class_validate c = []) cs \<Longrightarrow> Class_save c cs = Inr cs' \<Longrightarrow>
   list_all (\<lambda>c. Class_validate c = []) cs'"
  by (auto simp: Class_save_def list_all_updateOne split: list.splits)

lemma Class_save_new_keeps_valid:
  "list_all (\<lambda>c. Class_validate c = []) cs \<Longrightarrow> Class_save_new c cs = Inr cs' \<Longrightarrow>
   list_all (\<lambda>c. Class_validate c = []) cs'"
  by (auto simp: Class_save_new_def split: list.splits)

lemma createClass_keeps_classes_valid:
  "classes_valid st \<Longrightarrow> classes_valid (snd (createClass newId nm sec yr t cap stat st))"
  unfolding classes_valid_def
  by (auto simp: createClass_def Let_def dest: Class_save_new_keeps_valid
      split: option.splits sum.splits)

lemma updateClass_keeps_classes_valid:
  "classes_valid st \<Longrightarrow> classes_valid (snd (updateClass i upd st))"
  unfolding classes_valid_def
  by (auto simp: updateClass_def Let_def dest: Class_save_keeps_valid
      split: option.splits sum.splits)

lemma addStudentToClass_keeps_classes_valid:
  "classes_valid st \<Longrightarrow> classes_valid (snd (addStudentToClass i sid st))"
  unfolding classes_valid_def
  by (auto simp: addStudentToClass_def Let_def dest: Class_save_keeps_valid
      split: option.splits sum.splits)

lemma removeStudentFromClass_keeps_classes_valid:
  "classes_valid st \<Longrightarrow> classes_valid (snd (removeStudentFromClass i sid st))"
  unfolding classes_valid_def
  by (auto simp: removeStudentFromClass_def Let_def dest: Class_save_keeps_valid
      split: option.splits sum.splits)

lemma classes_valid_found:
  "classes_valid st \<Longrightarrow> Class_findById (classes st) i = Some c \<Longrightarrow> Class_validate c = []"
  unfolding classes_valid_def Class_findById_def
  by (auto simp: find_Some_iff list_all_length)

lemma school_db_classes_valid: "classes_valid school_db"
  by (simp add: classes_valid_def example_defs Class_validate_def)

section \<open>Access control guard: results\<close>

lemma requireRoles_unauthenticated:
  "requireRoles roles \<lparr>user = None\<rparr> res Response next = Inl (CustomError ''Authentication required'' 401)"
  by (simp add: requireRoles_def)

lemma requireRoles_forbidden:
  "auth_role u \<notin> set roles \<Longrightarrow>
   requireRoles roles \<lparr>user = Some u\<rparr> res Response next = Inl (CustomError ''Insufficient permissions'' 403)"
  by (simp add: requireRoles_def)

lemma requireRoles_allows_with_next_bound:
  "auth_role u \<in> set roles \<Longrightarrow>
   requireRoles roles \<lparr>user = Some u\<rparr> res Response NextFunction = Inr ()"
  by (simp add: requireRoles_def call_next_def)

text \<open>
  C7. The guard is to fail with 401 without an identity, with 403 for a role outside the
  declared set, and to allow a request whose role is in the set. Invoked as a request
  handler, with \<open>(req, res, next)\<close>, the handler built by \<open>requireAdmin\<close> binds the
  continuation to its third parameter \<open>Response\<close> and leaves its fourth parameter \<open>next\<close>
  undefined: for an authenticated ADMIN it does not pass the request on, it raises a
  TypeError; the same holds for a TEACHER on a \<open>requireTeacher\<close> route. Dispatched by the
  router, the handler has four parameters and is skipped: the request of a STUDENT, and a
  request without identity, pass a \<open>requireAdmin\<close> route with no error.
\<close>

theorem requireRoles_allowed_role_raises:
  "invoke_handler requireAdmin
     \<lparr>user = Some \<lparr>userId = ''u1'', auth_email = ''admin@school.test'', auth_role = ''ADMIN''\<rparr>\<rparr>
     = Inl (TypeError ''next is not a function'')
   \<and> invoke_handler requireTeacher
     \<lparr>user = Some \<lparr>userId = ''u2'', auth_email = ''teacher@school.test'', auth_role = ''TEACHER''\<rparr>\<rparr>
     = Inl (TypeError ''next is not a function'')
   \<and> handle_request requireRoles_length requireAdmin
     \<lparr>user = Some \<lparr>userId = ''u3'', auth_email = ''student@school.test'', auth_role = ''STUDENT''\<rparr>\<rparr>
     = Inr ()
   \<and> handle_request requireRoles_length requireAdmin \<lparr>user = None\<rparr> = Inr ()"
  by (simp add: invoke_handler_def handle_request_def requireRoles_length_def requireAdmin_def
      requireTeacher_def requireRoles_def call_next_def)

section \<open>Results: grades (C1, C5, C9)\<close>

lemma letter_of_percentage_examples:
  "letter_of_percentage (js_times100 (js_divide 95 (Some 100))) = ''A+''"
  "letter_of_percentage (js_times100 (js_divide 52 (Some 100))) = ''C-''"
  "letter_of_percentage (js_times100 (js_divide 95 None)) = ''F''"
  by (simp_all add: letter_of_percentage_def)

lemma Grade_preSave_letters:
  "grade (Grade_preSave gs m g) = grade g \<or> grade (Grade_preSave gs m g) = Some ''F''"
  by (simp add: Grade_preSave_def Grade_read_maxMarks_def letter_of_percentage_def
      split: option.splits)

text \<open>
  With the letter required by the schema and never set by the service, no call of
  \<open>createGrade\<close> gets through \<open>save\<close>: every call fails and leaves the database as it
  was.
\<close>

lemma createGrade_never_succeeds:
  "\<exists>e. createGrade newId exam student mks rmks gb st = (Inl e, st)"
  by (auto simp: createGrade_def Grade_save_new_def Grade_validate_def
      split: option.splits list.splits)

text \<open>
  C1. The stored letter grade is to be the breakpoint function of \<open>100 * marks / maxMarks\<close>;
  \<open>createGrade\<close> with marks 95 on an exam with \<open>maxMarks\<close> 100 is to give \<open>A+\<close>. On the
  code, with the exam \<open>midterm\<close> (maxMarks 100), the student 1 and the grader 2 in place:
  \<open>createGrade\<close> with marks 95 stores nothing and fails in \<open>save\<close>, because the letter is
  required and the service never sets it; the hook that is to derive it searches the grades
  for the exam's identifier, finds nothing, and leaves the letter unset; and when a grade
  document is found under that identifier, it has no \<open>maxMarks\<close>, and the letter is \<open>F\<close>.
  The breakpoint chain itself gives \<open>A+\<close> at 95 of 100.
\<close>

theorem createGrade_letter_not_derived:
  "Exam_findById (exams school_db) 10 = Some midterm
   \<and> maxMarks midterm = 100
   \<and> createGrade 60 10 1 95 None 2 school_db
       = (Inl (ValidationError [''Grade is required'']), school_db)
   \<and> grade (Grade_preSave (grades school_db) True
        \<lparr>grade_id = 60, grade_exam = 10, grade_student = 1, marks = 95, grade = None,
         remarks = None, gradedBy = 2\<rparr>) = None
   \<and> grade (Grade_preSave [mkGrade 10 11 1 40 ''A-''] True
        \<lparr>grade_id = 60, grade_exam = 10, grade_student = 1, marks = 95, grade = None,
         remarks = None, gradedBy = 2\<rparr>) = Some ''F''
   \<and> letter_of_percentage (js_times100 (js_divide 95 (Some (maxMarks midterm)))) = ''A+''"
  by (simp add: createGrade_def example_defs lookup_defs Grade_save_new_def Grade_validate_def
      Grade_preSave_def Grade_read_maxMarks_def letter_of_percentage_def)

text \<open>
  C5, as stated, fails: in \<open>graded_db\<close> the student 1 already has a grade for the exam 10
  (maxMarks 100); \<open>createGrade\<close> with marks 150 fails, but with the duplicate-grade error,
  not with the marks-bound error.
\<close>

theorem createGrade_duplicate_reported_before_marks:
  "Exam_findById (exams graded_db) 10 = Some midterm
   \<and> maxMarks midterm < 150
   \<and> createGrade 60 10 1 150 None 2 graded_db
       = (Inl (CustomError ''Grade already exists for this student in this exam'' 400), graded_db)
   \<and> fst (createGrade 60 10 1 150 None 2 graded_db)
       \<noteq> Inl (CustomError ''Marks cannot exceed maximum marks for this exam'' 400)"
  by (simp add: createGrade_def example_defs lookup_defs)

text \<open>
  C5, amended. \<open>createGrade\<close> with marks above the \<open>maxMarks\<close> of the exam it refers to
  always fails and leaves the database as it was (no grade is created): with the
  duplicate-grade error when a grade for the (exam, student) pair exists, and with the
  marks-bound error when none exists and the student is a user with the STUDENT role. And
  whenever a grade for the pair exists, \<open>createGrade\<close> fails with the duplicate-grade error,
  the database unchanged.
\<close>

theorem createGrade_excess_marks_rejected:
  "(Exam_findById (exams st) exam = Some examData \<and> mks > maxMarks examData \<longrightarrow>
      (\<exists>e. createGrade newId exam student mks rmks gb st = (Inl e, st))
      \<and> (find (\<lambda>g. grade_exam g = exam \<and> grade_student g = student) (grades st) = None
           \<and> User_findById (users st) student = Some s \<and> role s = STUDENT \<longrightarrow>
          createGrade newId exam student mks rmks gb st
            = (Inl (CustomError ''Marks cannot exceed maximum marks for this exam'' 400), st)))
   \<and> (find (\<lambda>g. grade_exam g = exam \<and> grade_student g = student) (grades st) = Some g \<longrightarrow>
        createGrade newId exam student mks rmks gb st
          = (Inl (CustomError ''Grade already exists for this student in this exam'' 400), st))"
  by (auto simp: createGrade_def split: option.splits)

theorem createGrade_excess_marks_rejected_witness:
  "Exam_findById (exams school_db) 10 = Some midterm \<and> maxMarks midterm < 150
   \<and> find (\<lambda>g. grade_exam g = 10 \<and> grade_student g = 1) (grades school_db) = None
   \<and> User_findById (users school_db) 1
        = Some (mkUser 1 ''ann@school.test'' ''hash:secret1'' STUDENT ACTIVE)
   \<and> createGrade 60 10 1 150 None 2 school_db
        = (Inl (CustomError ''Marks cannot exceed maximum marks for this exam'' 400), school_db)
   \<and> find (\<lambda>g. grade_exam g = 10 \<and> grade_student g = 1) (grades graded_db)
        = Some (mkGrade 50 10 1 80 ''A-'')
   \<and> createGrade 60 10 1 90 None 2 graded_db
        = (Inl (CustomError ''Grade already exists for this student in this exam'' 400), graded_db)"
proof -
  have h1: "Exam_findById (exams school_db) 10 = Some midterm \<and> maxMarks midterm < 150"
    by (simp add: example_defs lookup_defs)
  have h2: "find (\<lambda>g. grade_exam g = 10 \<and> grade_student g = 1) (grades school_db) = None
     \<and> User_findById (users school_db) 1
        = Some (mkUser 1 ''ann@school.test'' ''hash:secret1'' STUDENT ACTIVE)
     \<and> role (mkUser 1 ''ann@school.test'' ''hash:secret1'' STUDENT ACTIVE) = STUDENT"
    by (simp add: example_defs lookup_defs)
  have h3: "find (\<lambda>g. grade_exam g = 10 \<and> grade_student g = 1) (grades graded_db)
        = Some (mkGrade 50 10 1 80 ''A-'')"
    by (simp add: example_defs lookup_defs)
  have a: "createGrade 60 10 1 150 None 2 school_db
        = (Inl (CustomError ''Marks cannot exceed maximum marks for this exam'' 400), school_db)"
    using createGrade_excess_marks_rejected
      [of school_db 10 midterm 150 60 1 None 2
          "mkUser 1 ''ann@school.test'' ''hash:secret1'' STUDENT ACTIVE" "mkGrade 50 10 1 80 ''A-''"]
      h1 h2 by blast
  have b: "createGrade 60 10 1 90 None 2 graded_db
        = (Inl (CustomError ''Grade already exists for this student in this exam'' 400), graded_db)"
    using createGrade_excess_marks_rejected
      [of graded_db 10 midterm 90 60 1 None 2
          "mkUser 1 ''ann@school.test'' ''hash:secret1'' STUDENT ACTIVE" "mkGrade 50 10 1 80 ''A-''"]
      h3 by blast
  show ?thesis using h1 h2 h3 a b by blast
qed

text \<open>
  C9. When the exam exists (identifiers are unique in a collection), \<open>deleteExam\<close> succeeds
  and leaves the database with exactly the grades that refer to other exams, the exams
  other than the deleted one, and the users, classes and announcements as they were.
\<close>

theorem deleteExam_cascades_to_grades:
  assumes "Exam_findById (exams st) i = Some e" and "distinct (map exam_id (exams st))"
  shows "deleteExam i st =
           (Inr (), st\<lparr>grades := filter (\<lambda>g. grade_exam g \<noteq> i) (grades st),
                       exams := filter (\<lambda>x. exam_id x \<noteq> i) (exams st)\<rparr>)"
  using assms by (simp add: deleteExam_def deleteMany_def deleteOne_distinct_filter)

theorem deleteExam_cascades_to_grades_witness:
  "Exam_findById (exams graded_db) 10 = Some midterm
   \<and> distinct (map exam_id (exams graded_db))
   \<and> deleteExam 10 graded_db
       = (Inr (), graded_db\<lparr>grades := [mkGrade 51 11 1 40 ''A-''], exams := [final_exam]\<rparr>)"
proof -
  have h1: "Exam_findById (exams graded_db) 10 = Some midterm"
    by (simp add: example_defs lookup_defs)
  have h2: "distinct (map exam_id (exams graded_db))"
    by (simp add: example_defs)
  have "deleteExam 10 graded_db =
           (Inr (), graded_db\<lparr>grades := filter (\<lambda>g. grade_exam g \<noteq> 10) (grades graded_db),
                       exams := filter (\<lambda>x. exam_id x \<noteq> 10) (exams graded_db)\<rparr>)"
    using deleteExam_cascades_to_grades [OF h1 h2] .
  then have "deleteExam 10 graded_db
       = (Inr (), graded_db\<lparr>grades := [mkGrade 51 11 1 40 ''A-''], exams := [final_exam]\<rparr>)"
    by (simp add: example_defs)
  then show ?thesis using h1 h2 by blast
qed

section \<open>Results: classes (C2, C6, C10)\<close>

text \<open>
  C2. Every class operation is to keep the student list no longer than the capacity. In
  \<open>school_db\<close> the class 20 has capacity 2 and the two students 1 and 4, so the invariant
  holds. \<open>updateClass\<close> with the body \<open>{ capacity: 1 }\<close> passes every check and the schema
  validation (1 is within 1..100), succeeds, and stores the class with two students and
  capacity 1: the invariant no longer holds.
\<close>

theorem updateClass_breaks_capacity_invariant:
  "Class_findById (classes school_db) 20 = Some class_7A
   \<and> within_capacity class_7A
   \<and> updateClass 20
        \<lparr>upd_name = None, upd_section = None, upd_year = None, upd_classTeacher = None,
         upd_capacity = Some 1, upd_status = None\<rparr> school_db
       = (Inr (class_7A\<lparr>capacity := 1\<rparr>),
          school_db\<lparr>classes := [class_7A\<lparr>capacity := 1\<rparr>, class_7B]\<rparr>)
   \<and> students (class_7A\<lparr>capacity := 1\<rparr>) = [1, 4]
   \<and> \<not> within_capacity (class_7A\<lparr>capacity := 1\<rparr>)"
  by (simp add: updateClass_def example_defs lookup_defs duplicate_after_update_def
      assign_ClassUpdate_def Class_save_def Class_validate_def within_capacity_def Let_def)

text \<open>What the other class operations do to the invariant.\<close>

lemma createClass_within_capacity:
  "createClass newId nm sec yr t cap stat st = (Inr c, st') \<Longrightarrow> within_capacity c"
  by (auto simp: createClass_def Class_save_new_def Class_validate_def within_capacity_def
      Let_def split: option.splits if_splits list.splits)

lemma removeStudentFromClass_within_capacity:
  assumes "Class_findById (classes st) i = Some c" and "within_capacity c"
    and "removeStudentFromClass i sid st = (Inr c', st')"
  shows "within_capacity c'"
proof -
  let ?c1 = "c\<lparr>students := filter (\<lambda>j. ObjectId_toString j \<noteq> sid) (students c)\<rparr>"
  have le: "length (filter (\<lambda>j. ObjectId_toString j \<noteq> sid) (students c)) \<le> length (students c)"
    by (rule length_filter_le)
  have cid: "class_id c = i" using assms(1) by (rule Class_findById_id)
  have "Class_validate c = []"
    using assms(1,3) by (auto simp: removeStudentFromClass_def Class_save_def split: list.splits)
  then have sv: "Class_save ?c1 (classes st)
       = Inr (updateOne (\<lambda>d. class_id d = i) (\<lambda>d. ?c1) (classes st))"
    using cid by (simp add: Class_save_valid)
  have "c' = ?c1"
    using assms(1,3) cid
    by (auto simp: removeStudentFromClass_def sv getClassById_def Class_findById_after_save Let_def
        split: option.splits)
  moreover have "(of_nat (length (filter (\<lambda>j. ObjectId_toString j \<noteq> sid) (students c))) :: rat)
       \<le> capacity c"
  proof -
    have "(of_nat (length (filter (\<lambda>j. ObjectId_toString j \<noteq> sid) (students c))) :: rat)
       \<le> of_nat (length (students c))"
      using le by (simp only: of_nat_le_iff)
    also have "\<dots> \<le> capacity c" using assms(2) by (simp add: within_capacity_def)
    finally show ?thesis .
  qed
  ultimately show ?thesis by (simp add: within_capacity_def)
qed

text \<open>
  \<open>addStudentToClass\<close> keeps the invariant when the capacity is a whole number; the request
  schema and the class schema accept any number between 1 and 100.
\<close>

lemma addStudentToClass_within_capacity:
  assumes "Class_findById (classes st) i = Some c" and "capacity c = of_nat n"
    and "addStudentToClass i sid st = (Inr c', st')"
  shows "within_capacity c'"
proof -
  have cid: "class_id c = i" using assms(1) by (rule Class_findById_id)
  have ok: "sid \<notin> set (students c) \<and> (of_nat (length (students c)) :: rat) < capacity c
        \<and> Class_validate c = []"
    using assms(1,3)
    by (auto simp: addStudentToClass_def Class_save_def split: option.splits if_splits list.splits)
  then have sv: "Class_save (c\<lparr>students := students c @ [sid]\<rparr>) (classes st)
       = Inr (updateOne (\<lambda>d. class_id d = i) (\<lambda>d. c\<lparr>students := students c @ [sid]\<rparr>) (classes st))"
    using cid by (simp add: Class_save_valid)
  have "c' = c\<lparr>students := students c @ [sid]\<rparr>"
    using assms(1,3) cid ok
    by (auto simp: addStudentToClass_def sv getClassById_def Class_findById_after_save Let_def
        split: option.splits if_splits)
  moreover have "length (students c) < n" using ok assms(2) by simp
  ultimately show ?thesis using assms(2) by (simp add: within_capacity_def)
qed

lemma addStudentToClass_fractional_capacity:
  "Class_findById [class_7A\<lparr>capacity := 5 / 2\<rparr>] 20 = Some (class_7A\<lparr>capacity := 5 / 2\<rparr>)
   \<and> within_capacity (class_7A\<lparr>capacity := 5 / 2\<rparr>)
   \<and> fst (addStudentToClass 20 5 (school_db\<lparr>classes := [class_7A\<lparr>capacity := 5 / 2\<rparr>]\<rparr>))
       = Inr (class_7A\<lparr>capacity := 5 / 2, students := [1, 4, 5]\<rparr>)
   \<and> \<not> within_capacity (class_7A\<lparr>capacity := 5 / 2, students := [1, 4, 5]\<rparr>)"
  by (simp add: addStudentToClass_def example_defs lookup_defs Class_save_def Class_validate_def
      within_capacity_def getClassById_def User_findByIdAndUpdate_def Let_def)

text \<open>The rules of \<open>addStudentToClass\<close> for an existing class and a user with the STUDENT role.\<close>

lemma addStudentToClass_success:
  assumes found: "Class_findById (classes st) classId = Some c"
    and stu: "User_findById (users st) sid = Some s" "role s = STUDENT"
    and new: "sid \<notin> set (students c)"
    and room: "of_nat (length (students c)) < capacity c"
    and valid: "Class_validate c = []"
  shows "addStudentToClass classId sid st =
           (Inr (c\<lparr>students := students c @ [sid]\<rparr>),
            st\<lparr>classes := updateOne (\<lambda>d. class_id d = classId)
                              (\<lambda>d. c\<lparr>students := students c @ [sid]\<rparr>) (classes st),
               users := User_findByIdAndUpdate sid [Set_meta_class (Some classId)] (users st)\<rparr>)"
proof -
  have cid: "class_id c = classId" using found by (rule Class_findById_id)
  have sv: "Class_save (c\<lparr>students := students c @ [sid]\<rparr>) (classes st)
     = Inr (updateOne (\<lambda>d. class_id d = classId) (\<lambda>d. c\<lparr>students := students c @ [sid]\<rparr>) (classes st))"
    using valid cid by (simp add: Class_save_valid)
  have again: "Class_findById (updateOne (\<lambda>d. class_id d = classId)
        (\<lambda>d. c\<lparr>students := students c @ [sid]\<rparr>) (classes st)) classId
      = Some (c\<lparr>students := students c @ [sid]\<rparr>)"
    using found cid by (intro Class_findById_after_save) simp_all
  show ?thesis
    using found stu new room
    by (simp add: addStudentToClass_def sv getClassById_def again Let_def)
qed

lemma addStudentToClass_already_enrolled:
  assumes "Class_findById (classes st) classId = Some c"
    and "User_findById (users st) sid = Some s" "role s = STUDENT"
    and "sid \<in> set (students c)"
  shows "addStudentToClass classId sid st
           = (Inl (CustomError ''Student is already enrolled in this class'' 400), st)"
  using assms by (simp add: addStudentToClass_def)

lemma addStudentToClass_full:
  assumes "Class_findById (classes st) classId = Some c"
    and "User_findById (users st) sid = Some s" "role s = STUDENT"
    and "sid \<notin> set (students c)" and "of_nat (length (students c)) \<ge> capacity c"
  shows "addStudentToClass classId sid st
           = (Inl (CustomError ''Class is at maximum capacity'' 400), st)"
  using assms by (simp add: addStudentToClass_def)

lemma is_student_after_add:
  "is_student (st\<lparr>classes := cs, users := User_findByIdAndUpdate sid upd (users st)\<rparr>) x
     = is_student st x"
  by (simp add: is_student_def User_findById_after_update split: option.splits)

text \<open>
  Filling a class: students that are new to the class, pairwise distinct and within the
  capacity are all added, in order, and who is a student does not change.
\<close>

lemma addStudentsToClass_fill:
  assumes "Class_findById (classes st) classId = Some c"
    and "Class_validate c = []"
    and "distinct ss" and "set ss \<inter> set (students c) = {}"
    and "list_all (is_student st) ss"
    and "of_nat (length (students c) + length ss) \<le> capacity c"
  shows "fst (addStudentsToClass classId ss st) = Inr ()
       \<and> Class_findById (classes (snd (addStudentsToClass classId ss st))) classId
           = Some (c\<lparr>students := students c @ ss\<rparr>)
       \<and> (\<forall>x. is_student (snd (addStudentsToClass classId ss st)) x = is_student st x)"
  using assms
proof (induction ss arbitrary: st c)
  case Nil
  then show ?case by simp
next
  case (Cons a ss)
  let ?c1 = "c\<lparr>students := students c @ [a]\<rparr>"
  let ?st1 = "st\<lparr>classes := updateOne (\<lambda>d. class_id d = classId) (\<lambda>d. ?c1) (classes st),
                 users := User_findByIdAndUpdate a [Set_meta_class (Some classId)] (users st)\<rparr>"
  from Cons.prems(5) obtain s where s: "User_findById (users st) a = Some s" "role s = STUDENT"
    by (auto simp: is_student_def split: option.splits)
  have new: "a \<notin> set (students c)" using Cons.prems(4) by auto
  have room: "of_nat (length (students c)) < capacity c"
  proof -
    have "(of_nat (length (students c)) :: rat) < of_nat (length (students c) + length (a # ss))"
      by simp
    then show ?thesis using Cons.prems(6) by simp
  qed
  have step: "addStudentToClass classId a st = (Inr ?c1, ?st1)"
    using Cons.prems(1) s new room Cons.prems(2) by (rule addStudentToClass_success)
  have cid: "class_id c = classId" using Cons.prems(1) by (rule Class_findById_id)
  have found1: "Class_findById (classes ?st1) classId = Some ?c1"
    using Cons.prems(1) cid by (simp add: Class_findById_after_save)
  have stud1: "\<And>x. is_student ?st1 x = is_student st x"
    by (rule is_student_after_add)
  have IH: "fst (addStudentsToClass classId ss ?st1) = Inr ()
       \<and> Class_findById (classes (snd (addStudentsToClass classId ss ?st1))) classId
           = Some (?c1\<lparr>students := students ?c1 @ ss\<rparr>)
       \<and> (\<forall>x. is_student (snd (addStudentsToClass classId ss ?st1)) x = is_student ?st1 x)"
  proof (rule Cons.IH)
    show "Class_findById (classes ?st1) classId = Some ?c1" by (rule found1)
    show "Class_validate ?c1 = []" using Cons.prems(2) by simp
    show "distinct ss" using Cons.prems(3) by simp
    show "set ss \<inter> set (students ?c1) = {}" using Cons.prems(3,4) by auto
    show "list_all (is_student ?st1) ss" using Cons.prems(5) by (simp add: stud1 list_all_iff)
    show "of_nat (length (students ?c1) + length ss) \<le> capacity ?c1" using Cons.prems(6) by simp
  qed
  show ?case using IH by (simp add: step stud1)
qed

text \<open>
  C6, as stated, fails. In \<open>school_db\<close> the class 21 has room and no member 9, but no user
  has the identifier 9: the add does not succeed. In \<open>orphan_db\<close> the identifier 4 is in
  the member list of the class 20, but its user was deleted: the add fails with
  \<open>Student not found\<close>, not with the already-enrolled error.
\<close>

theorem addStudentToClass_unknown_student_rejected:
  "Class_findById (classes school_db) 21 = Some class_7B
   \<and> 9 \<notin> set (students class_7B)
   \<and> of_nat (length (students class_7B)) < capacity class_7B
   \<and> addStudentToClass 21 9 school_db = (Inl (CustomError ''Student not found'' 404), school_db)
   \<and> Class_findById (classes orphan_db) 20 = Some class_7A
   \<and> 4 \<in> set (students class_7A)
   \<and> addStudentToClass 20 4 orphan_db = (Inl (CustomError ''Student not found'' 404), orphan_db)"
  by (simp add: addStudentToClass_def example_defs lookup_defs)

text \<open>
  C6, amended. For an existing class and an identifier (an ObjectId, given by its canonical
  string) that resolves to a user with the STUDENT role, \<open>addStudentToClass\<close> fails with the already-enrolled error when the
  identifier is in the member list; otherwise it fails with the capacity error when the
  member count is at least the capacity; otherwise (the stored class being valid, as every
  stored class is) it succeeds and appends the student. Consequently, when the capacity is
  the whole number \<open>n\<close> and the students \<open>ss\<close> resolve to users with the STUDENT role,
  are distinct, new to the class and fill it up to \<open>n\<close>, every one of these adds
  succeeds, and the add of one more such student fails with the capacity error.
\<close>

theorem addStudentToClass_enrolment_rules:
  assumes found: "Class_findById (classes st) classId = Some c"
    and stu: "User_findById (users st) sid = Some s" "role s = STUDENT"
  shows "(sid \<in> set (students c) \<longrightarrow>
            addStudentToClass classId sid st
              = (Inl (CustomError ''Student is already enrolled in this class'' 400), st))
       \<and> (sid \<notin> set (students c) \<and> of_nat (length (students c)) \<ge> capacity c \<longrightarrow>
            addStudentToClass classId sid st
              = (Inl (CustomError ''Class is at maximum capacity'' 400), st))
       \<and> (sid \<notin> set (students c) \<and> of_nat (length (students c)) < capacity c
            \<and> Class_validate c = [] \<longrightarrow>
            addStudentToClass classId sid st =
              (Inr (c\<lparr>students := students c @ [sid]\<rparr>),
               st\<lparr>classes := updateOne (\<lambda>d. class_id d = classId)
                              (\<lambda>d. c\<lparr>students := students c @ [sid]\<rparr>) (classes st),
                  users := User_findByIdAndUpdate sid [Set_meta_class (Some classId)] (users st)\<rparr>))
       \<and> (Class_validate c = [] \<and> capacity c = of_nat n
            \<and> length (students c) + length ss = n
            \<and> distinct ss \<and> set ss \<inter> set (students c) = {} \<and> list_all (is_student st) ss
            \<and> sid \<notin> set (students c) \<and> sid \<notin> set ss \<longrightarrow>
            fst (addStudentsToClass classId ss st) = Inr ()
            \<and> Class_findById (classes (snd (addStudentsToClass classId ss st))) classId
                = Some (c\<lparr>students := students c @ ss\<rparr>)
            \<and> addStudentToClass classId sid (snd (addStudentsToClass classId ss st))
                = (Inl (CustomError ''Class is at maximum capacity'' 400),
                   snd (addStudentsToClass classId ss st)))"
proof (intro conjI impI)
  assume member: "sid \<in> set (students c)"
  show "addStudentToClass classId sid st
              = (Inl (CustomError ''Student is already enrolled in this class'' 400), st)"
    using found stu member by (rule addStudentToClass_already_enrolled)
next
  assume a: "sid \<notin> set (students c) \<and> of_nat (length (students c)) \<ge> capacity c"
  from a have new: "sid \<notin> set (students c)"
    and full: "of_nat (length (students c)) \<ge> capacity c" by blast+
  show "addStudentToClass classId sid st
              = (Inl (CustomError ''Class is at maximum capacity'' 400), st)"
    using found stu new full by (rule addStudentToClass_full)
next
  assume a: "sid \<notin> set (students c) \<and> of_nat (length (students c)) < capacity c
            \<and> Class_validate c = []"
  from a have new: "sid \<notin> set (students c)"
    and room: "of_nat (length (students c)) < capacity c"
    and valid: "Class_validate c = []" by blast+
  show "addStudentToClass classId sid st =
              (Inr (c\<lparr>students := students c @ [sid]\<rparr>),
               st\<lparr>classes := updateOne (\<lambda>d. class_id d = classId)
                              (\<lambda>d. c\<lparr>students := students c @ [sid]\<rparr>) (classes st),
                  users := User_findByIdAndUpdate sid [Set_meta_class (Some classId)] (users st)\<rparr>)"
    using found stu new room valid by (rule addStudentToClass_success)
next
  assume h: "Class_validate c = [] \<and> capacity c = of_nat n
            \<and> length (students c) + length ss = n
            \<and> distinct ss \<and> set ss \<inter> set (students c) = {} \<and> list_all (is_student st) ss
            \<and> sid \<notin> set (students c) \<and> sid \<notin> set ss"
  let ?st' = "snd (addStudentsToClass classId ss st)"
  let ?c' = "c\<lparr>students := students c @ ss\<rparr>"
  have cap: "of_nat (length (students c) + length ss) \<le> capacity c" using h by simp
  from h have valid: "Class_validate c = []" and dist: "distinct ss"
    and disj: "set ss \<inter> set (students c) = {}" and studs: "list_all (is_student st) ss"
    by blast+
  have fill: "fst (addStudentsToClass classId ss st) = Inr ()
       \<and> Class_findById (classes ?st') classId = Some ?c'
       \<and> (\<forall>x. is_student ?st' x = is_student st x)"
    using found valid dist disj studs cap by (rule addStudentsToClass_fill)
  have "is_student st sid" using stu by (simp add: is_student_def)
  then have "is_student ?st' sid" using fill by simp
  then obtain s' where s': "User_findById (users ?st') sid = Some s'" "role s' = STUDENT"
    by (auto simp: is_student_def split: option.splits)
  have full: "of_nat (length (students ?c')) \<ge> capacity ?c'" using h by simp
  have notin: "sid \<notin> set (students ?c')" using h by simp
  have found': "Class_findById (classes ?st') classId = Some ?c'" using fill by blast
  have last: "addStudentToClass classId sid ?st'
            = (Inl (CustomError ''Class is at maximum capacity'' 400), ?st')"
    using found' s' notin full by (rule addStudentToClass_full)
  show "fst (addStudentsToClass classId ss st) = Inr ()" using fill by blast
  show "Class_findById (classes ?st') classId = Some ?c'" using fill by blast
  show "addStudentToClass classId sid ?st'
            = (Inl (CustomError ''Class is at maximum capacity'' 400), ?st')" by (rule last)
qed

theorem addStudentToClass_enrolment_rules_witness:
  "Class_findById (classes school_db) 20 = Some class_7A
   \<and> capacity class_7A = 2 \<and> students class_7A = [1, 4]
   \<and> addStudentToClass 20 1 school_db
       = (Inl (CustomError ''Student is already enrolled in this class'' 400), school_db)
   \<and> addStudentToClass 20 5 school_db
       = (Inl (CustomError ''Class is at maximum capacity'' 400), school_db)
   \<and> Class_findById (classes school_db) 21 = Some class_7B
   \<and> capacity class_7B = 2 \<and> students class_7B = []
   \<and> fst (addStudentToClass 21 1 school_db) = Inr (class_7B\<lparr>students := [1]\<rparr>)
   \<and> fst (addStudentsToClass 21 [1, 4] school_db) = Inr ()
   \<and> Class_findById (classes (snd (addStudentsToClass 21 [1, 4] school_db))) 21
       = Some (class_7B\<lparr>students := [1, 4]\<rparr>)
   \<and> addStudentToClass 21 5 (snd (addStudentsToClass 21 [1, 4] school_db))
       = (Inl (CustomError ''Class is at maximum capacity'' 400),
          snd (addStudentsToClass 21 [1, 4] school_db))"
proof -
  let ?ann = "mkUser 1 ''ann@school.test'' ''hash:secret1'' STUDENT ACTIVE"
  let ?sam = "mkUser 5 ''sam@school.test'' ''hash:secret5'' STUDENT ACTIVE"
  have fA: "Class_findById (classes school_db) 20 = Some class_7A"
    by (simp add: example_defs lookup_defs)
  have fB: "Class_findById (classes school_db) 21 = Some class_7B"
    by (simp add: example_defs lookup_defs)
  have u1: "User_findById (users school_db) 1 = Some ?ann"
    by (simp add: example_defs lookup_defs)
  have u5: "User_findById (users school_db) 5 = Some ?sam"
    by (simp add: example_defs lookup_defs)
  have r1: "role ?ann = STUDENT" and r5: "role ?sam = STUDENT"
    by (simp_all add: mkUser_def)
  have dA: "capacity class_7A = 2 \<and> students class_7A = [1, 4]"
    by (simp add: class_7A_def)
  have dB: "capacity class_7B = 2 \<and> students class_7B = []"
    by (simp add: class_7B_def)
  have vB: "Class_validate class_7B = []"
    by (simp add: class_7B_def Class_validate_def)
  have studs: "list_all (is_student school_db) [1, 4]"
    by (simp add: is_student_def example_defs lookup_defs)
  have enrolled: "addStudentToClass 20 1 school_db
       = (Inl (CustomError ''Student is already enrolled in this class'' 400), school_db)"
    using addStudentToClass_enrolment_rules [OF fA u1 r1, of 0 "[]"] dA by simp
  have full: "addStudentToClass 20 5 school_db
       = (Inl (CustomError ''Class is at maximum capacity'' 400), school_db)"
    using addStudentToClass_enrolment_rules [OF fA u5 r5, of 0 "[]"] dA by simp
  have added: "fst (addStudentToClass 21 1 school_db) = Inr (class_7B\<lparr>students := [1]\<rparr>)"
    using addStudentToClass_enrolment_rules [OF fB u1 r1, of 0 "[]"] dB vB by simp
  have hyp: "Class_validate class_7B = [] \<and> capacity class_7B = of_nat 2
            \<and> length (students class_7B) + length [1::nat, 4] = 2
            \<and> distinct [1::nat, 4] \<and> set [1::nat, 4] \<inter> set (students class_7B) = {}
            \<and> list_all (is_student school_db) [1, 4]
            \<and> (5::nat) \<notin> set (students class_7B) \<and> (5::nat) \<notin> set [1, 4]"
    using vB dB studs by simp
  have filled: "fst (addStudentsToClass 21 [1, 4] school_db) = Inr ()
            \<and> Class_findById (classes (snd (addStudentsToClass 21 [1, 4] school_db))) 21
                = Some (class_7B\<lparr>students := students class_7B @ [1, 4]\<rparr>)
            \<and> addStudentToClass 21 5 (snd (addStudentsToClass 21 [1, 4] school_db))
                = (Inl (CustomError ''Class is at maximum capacity'' 400),
                   snd (addStudentsToClass 21 [1, 4] school_db))"
    using addStudentToClass_enrolment_rules [OF fB u5 r5, of 2 "[1, 4]"] hyp by blast
  have app: "class_7B\<lparr>students := students class_7B @ [1, 4]\<rparr> = class_7B\<lparr>students := [1, 4]\<rparr>"
    using dB by simp
  show ?thesis
    using fA fB dA dB enrolled full added filled unfolding app by blast
qed

text \<open>
  C10, as stated, fails: the class 20 exists in \<open>school_db\<close>, and \<open>abc\<close>, which the
  request schema accepts, is the string of none of its members. \<open>removeStudentFromClass\<close>
  saves the class as it was, and then fails: the update of the user cannot cast \<open>abc\<close>.
\<close>

theorem removeStudentFromClass_malformed_id_fails:
  "Class_findById (classes school_db) 20 = Some class_7A
   \<and> ''abc'' \<notin> set (map ObjectId_toString (students class_7A))
   \<and> removeStudentFromClass 20 ''abc'' school_db
       = (Inl (CastError ''ObjectId'' ''abc''), school_db)"
  by (simp add: removeStudentFromClass_def example_defs lookup_defs Class_save_def
      Class_validate_def ObjectId_toString_examples castObjectId_examples)

text \<open>
  C10, amended. Once the class exists (and is valid, as every stored class is) and
  \<open>studentId\<close> is a well-formed ObjectId string, \<open>removeStudentFromClass\<close> never fails,
  even when the student is not in the member list: it returns the class without the members
  whose string is \<open>studentId\<close>; when no member has that string, the class is returned as it
  was and the stored classes are unchanged; and a second removal of the same student returns
  the same class and leaves the database of the first removal as it is.
\<close>

theorem removeStudentFromClass_idempotent:
  assumes found: "Class_findById (classes st) classId = Some c"
    and valid: "Class_validate c = []"
    and cast: "castObjectId studentId = Some sid"
  shows "fst (removeStudentFromClass classId studentId st)
           = Inr (c\<lparr>students := filter (\<lambda>i. ObjectId_toString i \<noteq> studentId) (students c)\<rparr>)
       \<and> (studentId \<notin> set (map ObjectId_toString (students c)) \<longrightarrow>
            fst (removeStudentFromClass classId studentId st) = Inr c
            \<and> classes (snd (removeStudentFromClass classId studentId st)) = classes st)
       \<and> removeStudentFromClass classId studentId (snd (removeStudentFromClass classId studentId st))
           = removeStudentFromClass classId studentId st"
proof -
  let ?c' = "c\<lparr>students := filter (\<lambda>i. ObjectId_toString i \<noteq> studentId) (students c)\<rparr>"
  let ?cs' = "updateOne (\<lambda>d. class_id d = classId) (\<lambda>d. ?c') (classes st)"
  let ?us' = "User_findByIdAndUpdate sid [Unset_meta_class] (users st)"
  let ?st' = "st\<lparr>classes := ?cs', users := ?us'\<rparr>"
  have cid: "class_id c = classId" using found by (rule Class_findById_id)
  have sv: "Class_save ?c' cs = Inr (updateOne (\<lambda>d. class_id d = classId) (\<lambda>d. ?c') cs)" for cs
    using valid cid by (simp add: Class_save_valid)
  have found': "Class_findById ?cs' classId = Some ?c'"
    using found cid by (intro Class_findById_after_save) simp_all
  have first: "removeStudentFromClass classId studentId st = (Inr ?c', ?st')"
    using found cast
    by (simp add: removeStudentFromClass_def sv getClassById_def found' Let_def)
  have absent: "?c' = c \<and> ?cs' = classes st"
    if "studentId \<notin> set (map ObjectId_toString (students c))"
  proof -
    have "filter (\<lambda>i. ObjectId_toString i \<noteq> studentId) (students c) = students c"
      using that by (auto intro: filter_True)
    then have eq: "?c' = c" by simp
    have "updateOne (\<lambda>d. class_id d = classId) (\<lambda>d. c) (classes st) = classes st"
      using found unfolding Class_findById_def by (rule updateOne_found_itself)
    then show ?thesis using eq by simp
  qed
  have again_c:
    "?c'\<lparr>students := filter (\<lambda>i. ObjectId_toString i \<noteq> studentId) (students ?c')\<rparr> = ?c'"
    by simp
  have cs_twice: "updateOne (\<lambda>d. class_id d = classId) (\<lambda>d. ?c') ?cs' = ?cs'"
    using cid by (intro updateOne_const_twice) simp
  have us_twice: "User_findByIdAndUpdate sid [Unset_meta_class] ?us' = ?us'"
    unfolding User_findByIdAndUpdate_def
    by (rule updateOne_idem) (simp_all add: apply_user_update_def)
  have second: "removeStudentFromClass classId studentId ?st' = (Inr ?c', ?st')"
    using found' cast
    by (simp add: removeStudentFromClass_def again_c sv cs_twice us_twice getClassById_def Let_def)
  have c1: "fst (removeStudentFromClass classId studentId st) = Inr ?c'"
    by (simp only: first fst_conv)
  have c2: "fst (removeStudentFromClass classId studentId st) = Inr c
            \<and> classes (snd (removeStudentFromClass classId studentId st)) = classes st"
    if "studentId \<notin> set (map ObjectId_toString (students c))"
  proof -
    have e: "?c' = c" and f: "?cs' = classes st" using absent [OF that] by blast+
    have "fst (removeStudentFromClass classId studentId st) = Inr c"
      using c1 e by (simp only:)
    moreover have "classes (snd (removeStudentFromClass classId studentId st)) = ?cs'"
      by (simp add: first)
    ultimately show ?thesis using f by (simp only:)
  qed
  have c3: "removeStudentFromClass classId studentId
              (snd (removeStudentFromClass classId studentId st))
           = removeStudentFromClass classId studentId st"
    by (simp only: first snd_conv second)
  show ?thesis using c1 c2 c3 by blast
qed

theorem removeStudentFromClass_idempotent_witness:
  "Class_findById (classes school_db) 20 = Some class_7A
   \<and> Class_validate class_7A = []
   \<and> castObjectId ''000000000000000000000009'' = Some 9
   \<and> ''000000000000000000000009'' \<notin> set (map ObjectId_toString (students class_7A))
   \<and> fst (removeStudentFromClass 20 ''000000000000000000000009'' school_db) = Inr class_7A
   \<and> classes (snd (removeStudentFromClass 20 ''000000000000000000000009'' school_db))
       = classes school_db
   \<and> castObjectId ''000000000000000000000001'' = Some 1
   \<and> fst (removeStudentFromClass 20 ''000000000000000000000001'' school_db)
       = Inr (class_7A\<lparr>students := [4]\<rparr>)
   \<and> removeStudentFromClass 20 ''000000000000000000000001''
        (snd (removeStudentFromClass 20 ''000000000000000000000001'' school_db))
       = removeStudentFromClass 20 ''000000000000000000000001'' school_db"
proof -
  have f: "Class_findById (classes school_db) 20 = Some class_7A"
    by (simp add: example_defs lookup_defs)
  have v: "Class_validate class_7A = []"
    by (simp add: class_7A_def Class_validate_def)
  have k9: "castObjectId ''000000000000000000000009'' = Some 9"
    and k1: "castObjectId ''000000000000000000000001'' = Some 1"
    by (simp_all only: castObjectId_examples)
  have n: "''000000000000000000000009'' \<notin> set (map ObjectId_toString (students class_7A))"
    by (simp add: class_7A_def ObjectId_toString_examples)
  have absent: "fst (removeStudentFromClass 20 ''000000000000000000000009'' school_db) = Inr class_7A
     \<and> classes (snd (removeStudentFromClass 20 ''000000000000000000000009'' school_db))
         = classes school_db"
    using removeStudentFromClass_idempotent [OF f v k9] n by blast
  have e: "class_7A\<lparr>students :=
               filter (\<lambda>i. ObjectId_toString i \<noteq> ''000000000000000000000001'') (students class_7A)\<rparr>
             = class_7A\<lparr>students := [4]\<rparr>"
    by (simp add: class_7A_def ObjectId_toString_examples)
  have present: "fst (removeStudentFromClass 20 ''000000000000000000000001'' school_db)
         = Inr (class_7A\<lparr>students := [4]\<rparr>)
     \<and> removeStudentFromClass 20 ''000000000000000000000001''
          (snd (removeStudentFromClass 20 ''000000000000000000000001'' school_db))
       = removeStudentFromClass 20 ''000000000000000000000001'' school_db"
    using removeStudentFromClass_idempotent [OF f v k1] unfolding e by blast
  show ?thesis using f v k9 k1 n absent present by blast
qed

text \<open>
  The filter compares strings: the upper-case spelling of a member's identifier casts to
  that member, but equals the string of no member, so nothing is removed from the list.
\<close>

lemma removeStudentFromClass_upper_case_spelling:
  "fst (removeStudentFromClass 20 ''00000000000000000000000A''
          (school_db\<lparr>classes := [class_7A\<lparr>students := [10]\<rparr>]\<rparr>))
     = Inr (class_7A\<lparr>students := [10]\<rparr>)"
  by (simp add: removeStudentFromClass_def example_defs lookup_defs Class_save_def
      Class_validate_def ObjectId_toString_examples castObjectId_examples getClassById_def Let_def)

section \<open>Results: login and password reset (C3, C4)\<close>

text \<open>
  C3, as stated, fails: \<open>bob@school.test\<close> is a stored user whose status is INACTIVE. With a
  password that does not match, login fails with the message \<open>Account is not active\<close>,
  while an unknown email fails with \<open>Invalid email or password\<close>.
\<close>

theorem login_inactive_user_distinct_message:
  "getUserByEmail ''nobody@school.test'' school_db = None
   \<and> getUserByEmail ''bob@school.test'' school_db
       = Some (mkUser 3 ''bob@school.test'' ''hash:secret3'' STUDENT INACTIVE)
   \<and> \<not> sample_compare ''wrong'' ''hash:secret3''
   \<and> login sample_compare sample_tokens 5 ''nobody@school.test'' ''wrong'' school_db
       = (Inl (CustomError ''Invalid email or password'' 401), school_db)
   \<and> login sample_compare sample_tokens 5 ''bob@school.test'' ''wrong'' school_db
       = (Inl (CustomError ''Account is not active'' 401), school_db)
   \<and> login sample_compare sample_tokens 5 ''bob@school.test'' ''wrong'' school_db
       \<noteq> login sample_compare sample_tokens 5 ''nobody@school.test'' ''wrong'' school_db"
  by (simp add: login_def email_defs example_defs)

text \<open>
  C3, amended. An email is looked up after the query is trimmed and lower-cased. For every
  (ASCII) email that is then not in the credential store and every stored user whose status
  is ACTIVE, queried with a password that does not match, login fails with the same message
  and the same status 401 in both runs, and writes nothing. For a stored user whose status
  is not ACTIVE login fails with \<open>Account is not active\<close> and status 401, whatever the
  password.
\<close>

theorem login_invalid_credentials_uniform:
  assumes "is_ascii e1" and "getUserByEmail e1 st = None"
    and "is_ascii e2" and "getUserByEmail e2 st = Some u" and "user_status u = ACTIVE"
    and "\<not> comparePassword p2 (passwordHash u)"
  shows "login comparePassword generateTokenPair now e1 p1 st
           = (Inl (CustomError ''Invalid email or password'' 401), st)
       \<and> login comparePassword generateTokenPair now e2 p2 st
           = (Inl (CustomError ''Invalid email or password'' 401), st)
       \<and> (is_ascii e3 \<and> getUserByEmail e3 st = Some v \<and> user_status v \<noteq> ACTIVE \<longrightarrow>
            login comparePassword generateTokenPair now e3 p3 st
              = (Inl (CustomError ''Account is not active'' 401), st))"
  using assms by (simp add: login_def)

theorem login_invalid_credentials_uniform_witness:
  "is_ascii ''nobody@school.test'' \<and> is_ascii ''Ann@School.test'' \<and> is_ascii ''BOB@school.test''
   \<and> getUserByEmail ''nobody@school.test'' school_db = None
   \<and> getUserByEmail ''Ann@School.test'' school_db
       = Some (mkUser 1 ''ann@school.test'' ''hash:secret1'' STUDENT ACTIVE)
   \<and> \<not> sample_compare ''wrong'' ''hash:secret1''
   \<and> getUserByEmail ''BOB@school.test'' school_db
       = Some (mkUser 3 ''bob@school.test'' ''hash:secret3'' STUDENT INACTIVE)
   \<and> login sample_compare sample_tokens 5 ''nobody@school.test'' ''anything'' school_db
       = (Inl (CustomError ''Invalid email or password'' 401), school_db)
   \<and> login sample_compare sample_tokens 5 ''Ann@School.test'' ''wrong'' school_db
       = (Inl (CustomError ''Invalid email or password'' 401), school_db)
   \<and> login sample_compare sample_tokens 5 ''BOB@school.test'' ''secret3'' school_db
       = (Inl (CustomError ''Account is not active'' 401), school_db)"
proof -
  let ?ann = "mkUser 1 ''ann@school.test'' ''hash:secret1'' STUDENT ACTIVE"
  let ?bob = "mkUser 3 ''bob@school.test'' ''hash:secret3'' STUDENT INACTIVE"
  have a1: "is_ascii ''nobody@school.test''" and a2: "is_ascii ''Ann@School.test''"
    and a3: "is_ascii ''BOB@school.test''"
    by (simp_all add: is_ascii_def)
  have h1: "getUserByEmail ''nobody@school.test'' school_db = None"
    by (simp add: email_defs example_defs)
  have h2: "getUserByEmail ''Ann@School.test'' school_db = Some ?ann"
    by (simp add: email_defs example_defs)
  have h3: "user_status ?ann = ACTIVE"
    by (simp add: mkUser_def)
  have h4: "\<not> sample_compare ''wrong'' (passwordHash ?ann)"
    by (simp add: example_defs)
  have h4': "\<not> sample_compare ''wrong'' ''hash:secret1''"
    by (simp add: example_defs)
  have h5: "getUserByEmail ''BOB@school.test'' school_db = Some ?bob \<and> user_status ?bob \<noteq> ACTIVE"
    by (simp add: email_defs example_defs)
  show ?thesis
    using login_invalid_credentials_uniform
      [of "''nobody@school.test''" school_db "''Ann@School.test''" ?ann sample_compare "''wrong''"
          sample_tokens 5 "''anything''" "''BOB@school.test''" ?bob "''secret3''",
       OF a1 h1 a2 h2 h3 h4]
      a1 a2 a3 h1 h2 h4' h5 by blast
qed

text \<open>Further facts about login: a non-active user, the status of every failure, a success.\<close>

lemma login_not_active:
  "getUserByEmail e st = Some u \<Longrightarrow> user_status u \<noteq> ACTIVE \<Longrightarrow>
   login comparePassword generateTokenPair now e p st
     = (Inl (CustomError ''Account is not active'' 401), st)"
  by (simp add: login_def)

lemma login_status_of_every_failure:
  "login comparePassword generateTokenPair now e p st = (Inl err, st') \<Longrightarrow>
   (\<exists>m. err = CustomError m 401) \<and> st' = st"
  by (auto simp: login_def Let_def split: option.splits if_splits)

lemma login_success_example:
  "fst (login sample_compare sample_tokens 5 ''ann@school.test'' ''secret1'' school_db)
     = Inr (mkUser 1 ''ann@school.test'' ''hash:secret1'' STUDENT ACTIVE,
            \<lparr>accessToken = ''access:ann@school.test'', refreshToken = ''refresh:ann@school.test''\<rparr>)"
  by (simp add: login_def email_defs example_defs Let_def)

text \<open>The email of the query is trimmed and lower-cased before the lookup.\<close>

lemma getUserByEmail_casts_the_query:
  "getUserByEmail ''BOB@school.test'' school_db
     = Some (mkUser 3 ''bob@school.test'' ''hash:secret3'' STUDENT INACTIVE)"
  "getUserByEmail ''  Ann@School.Test '' school_db
     = Some (mkUser 1 ''ann@school.test'' ''hash:secret1'' STUDENT ACTIVE)"
  by (simp_all add: email_defs example_defs)

lemma login_casts_the_query:
  "login sample_compare sample_tokens 5 ''BOB@school.test'' ''wrong'' school_db
     = (Inl (CustomError ''Account is not active'' 401), school_db)"
  "fst (login sample_compare sample_tokens 5 ''ANN@school.test'' ''secret1'' school_db)
     = Inr (mkUser 1 ''ann@school.test'' ''hash:secret1'' STUDENT ACTIVE,
            \<lparr>accessToken = ''access:ann@school.test'', refreshToken = ''refresh:ann@school.test''\<rparr>)"
  by (simp_all add: login_def email_defs example_defs Let_def)

text \<open>The failure rule of \<open>resetPassword\<close>, which holds as the specification states it.\<close>

lemma resetPassword_no_match:
  "find (reset_token_matches token now) (users st) = None \<Longrightarrow>
   resetPassword hashPassword now token newPassword st
     = (Inl (CustomError ''Invalid or expired reset token'' 400), st)"
  by (simp add: resetPassword_def)

lemma reset_token_expired:
  "resetPasswordExpires u = Some d \<Longrightarrow> d \<le> now \<Longrightarrow> \<not> reset_token_matches token now u"
  by (simp add: reset_token_matches_def)

lemma resetPassword_expired_example:
  "resetPassword sample_hash 1000 ''tok'' ''new-secret'' reset_db
     = (Inl (CustomError ''Invalid or expired reset token'' 400), reset_db)"
  by (simp add: resetPassword_def reset_token_matches_def example_defs)

text \<open>
  C4. A successful \<open>resetPassword\<close> is to replace the hash and clear the reset token and
  its expiry, so that the token cannot be used again. In \<open>reset_db\<close> the user 1 carries the
  token \<open>tok\<close> with expiry 1000. At time 500 \<open>resetPassword\<close> with \<open>tok\<close> succeeds and
  stores the new hash, but the second write passes \<open>undefined\<close> for both fields, and the
  stored token and expiry stay as they were; at time 600 the same token resets the password
  once more.
\<close>

theorem resetPassword_leaves_token_usable:
  "resetPassword sample_hash 500 ''tok'' ''new-secret'' reset_db
     = (Inr (),
        reset_db\<lparr>users := [(mkUser 1 ''ann@school.test'' ''hash:new-secret'' STUDENT ACTIVE)
                   \<lparr>resetPasswordToken := Some ''tok'', resetPasswordExpires := Some 1000\<rparr>]\<rparr>)
   \<and> resetPassword sample_hash 600 ''tok'' ''intruder''
        (snd (resetPassword sample_hash 500 ''tok'' ''new-secret'' reset_db))
     = (Inr (),
        reset_db\<lparr>users := [(mkUser 1 ''ann@school.test'' ''hash:intruder'' STUDENT ACTIVE)
                   \<lparr>resetPasswordToken := Some ''tok'', resetPasswordExpires := Some 1000\<rparr>]\<rparr>)"
  by (simp add: resetPassword_def reset_token_matches_def updateUserPassword_def
      User_findByIdAndUpdate_def apply_user_update_def example_defs Let_def)

section \<open>Results: announcements (C8)\<close>

lemma Announcement_preSave_keeps_publishedAt:
  "publishedAt a = Some d \<Longrightarrow> publishedAt (Announcement_preSave m now a) = Some d"
  by (simp add: Announcement_preSave_def)

text \<open>
  C8. Publishing an announcement that already has a \<open>publishedAt\<close> is to leave it
  unchanged. \<open>sports_day\<close> is PUBLISHED with \<open>publishedAt\<close> 100; its creator publishes it
  again at time 200. \<open>publishAnnouncement\<close> assigns \<open>publishedAt\<close> itself, before the hook
  runs, and the stored \<open>publishedAt\<close> becomes 200.
\<close>

theorem publishAnnouncement_overwrites_publishedAt:
  "Announcement_findById (announcements news_db) 40 = Some sports_day
   \<and> publishedAt sports_day = Some 100
   \<and> publishAnnouncement 200 40 (Some ''TEACHER'') (Some 2) news_db
       = (Inr (sports_day\<lparr>publishedAt := Some 200\<rparr>),
          news_db\<lparr>announcements := [sports_day\<lparr>publishedAt := Some 200\<rparr>]\<rparr>)"
  by (simp add: publishAnnouncement_def example_defs lookup_defs Announcement_save_def
      Announcement_validate_def Announcement_preSave_def Let_def)

end
